theory Spec2Isabelle
  imports Complex_Main
begin

section \<open>FITC inference for Gaussian process regression (FITCInferenceMethod.cpp)\<close>

text \<open>
  The engine caches a factorization of the inducing-point covariance and answers queries
  (marginal likelihood, its derivative wrt the noise scale, posterior mean and covariance)
  from the cache. The model below follows the members of FITCInferenceMethod.cpp that
  compute, each under its own name; the constructors, \<open>get_diagonal_vector\<close> and
  \<open>register_minimizer\<close> are left out. A member that throws ends the modelled run with
  the exception as its value: the state an object is left in by a throw is not modelled.

  Numbers: \<open>float64_t\<close> is modelled by \<open>real\<close>, so rounding, infinities and NaN are not
  part of the model. Dense algebra (Cholesky factorization, triangular solves) is the work
  of a library that is not part of the file; it enters every definition as a parameter
  \<open>alg\<close>, and the theorems hold for every such provider.
\<close>

subsection \<open>Errors\<close>

text \<open>
  \<open>error(fmt, args...)\<close> throws, and \<open>require(cond, fmt, args...)\<close> throws when \<open>cond\<close>
  is false: a ShogunException (or an exception derived from it) that carries the formatted
  message. The two helpers are declared outside the file; \<open>format_msg\<close> fills the \<open>{}\<close>
  placeholders of the format string from left to right.
\<close>

datatype sg_error = ShogunException string

fun format_msg :: "string \<Rightarrow> string list \<Rightarrow> string" where
  "format_msg (c # d # rest) args =
     (if c = CHR ''{'' \<and> d = CHR ''}''
      then (case args of [] \<Rightarrow> format_msg rest [] | a # as \<Rightarrow> a @ format_msg rest as)
      else c # format_msg (d # rest) args)"
| "format_msg s args = s"

definition require :: "bool \<Rightarrow> string \<Rightarrow> string list \<Rightarrow> sg_error + unit" where
  "require cond fmt args = (if cond then Inr () else Inl (ShogunException (format_msg fmt args)))"

definition bind_err :: "sg_error + 'a \<Rightarrow> ('a \<Rightarrow> sg_error + 'b) \<Rightarrow> sg_error + 'b" where
  "bind_err m f = (case m of Inl e \<Rightarrow> Inl e | Inr x \<Rightarrow> f x)"

subsection \<open>Vectors and matrices\<close>

text \<open>
  \<open>SGVector<float64_t>\<close> is a buffer with its length \<open>vlen\<close>: a list.
  \<open>SGMatrix<float64_t>\<close> is a column-major buffer with \<open>num_rows\<close> and \<open>num_cols\<close>;
  \<open>el M i j\<close> reads coefficient \<open>(i, j)\<close> as \<open>Map<MatrixXd>\<close> does.
\<close>

type_synonym sgvector = "real list"

record sgmatrix =
  num_rows :: nat
  num_cols :: nat
  matrix :: "real list"

definition el :: "sgmatrix \<Rightarrow> nat \<Rightarrow> nat \<Rightarrow> real" where
  "el M i j = matrix M ! (j * num_rows M + i)"

text \<open>
  An Eigen expression has a shape and a coefficient function; evaluating it into a buffer
  writes the coefficients column by column.
\<close>

definition mk_matrix :: "nat \<Rightarrow> nat \<Rightarrow> (nat \<Rightarrow> nat \<Rightarrow> real) \<Rightarrow> sgmatrix" where
  "mk_matrix r c f = \<lparr>num_rows = r, num_cols = c, matrix = map (\<lambda>k. f (k mod r) (k div r)) [0..<r * c]\<rparr>"

definition mk_vector :: "nat \<Rightarrow> (nat \<Rightarrow> real) \<Rightarrow> sgvector" where
  "mk_vector n f = map f [0..<n]"

text \<open>
  Assignment to a \<open>Map\<close> over a buffer of fixed shape: the buffer keeps its shape and
  receives the coefficients of the right-hand side. Eigen requires the two shapes to agree.
\<close>

definition assign_matrix :: "nat \<Rightarrow> nat \<Rightarrow> sgmatrix \<Rightarrow> sgmatrix" where
  "assign_matrix r c X = mk_matrix r c (el X)"

definition assign_vector :: "nat \<Rightarrow> sgvector \<Rightarrow> sgvector" where
  "assign_vector n x = mk_vector n (\<lambda>i. x ! i)"

definition col_vector :: "sgvector \<Rightarrow> sgmatrix" where
  "col_vector x = \<lparr>num_rows = length x, num_cols = 1, matrix = x\<rparr>"

text \<open>
  The Eigen operations the file uses. A binary coefficient-wise operation has the shape of
  its left operand (Eigen requires both shapes to agree).
\<close>

definition sq :: "real \<Rightarrow> real" where
  "sq x = x * x"

definition Identity :: "nat \<Rightarrow> nat \<Rightarrow> sgmatrix" where
  "Identity r c = mk_matrix r c (\<lambda>i j. if i = j then 1 else 0)"

definition Ones :: "nat \<Rightarrow> sgvector" where
  "Ones n = mk_vector n (\<lambda>i. 1)"

definition mat_scale :: "sgmatrix \<Rightarrow> real \<Rightarrow> sgmatrix" where
  "mat_scale A c = mk_matrix (num_rows A) (num_cols A) (\<lambda>i j. el A i j * c)"

definition scale_mat :: "real \<Rightarrow> sgmatrix \<Rightarrow> sgmatrix" where
  "scale_mat c A = mk_matrix (num_rows A) (num_cols A) (\<lambda>i j. c * el A i j)"

definition mat_add :: "sgmatrix \<Rightarrow> sgmatrix \<Rightarrow> sgmatrix" where
  "mat_add A B = mk_matrix (num_rows A) (num_cols A) (\<lambda>i j. el A i j + el B i j)"

definition mat_sub :: "sgmatrix \<Rightarrow> sgmatrix \<Rightarrow> sgmatrix" where
  "mat_sub A B = mk_matrix (num_rows A) (num_cols A) (\<lambda>i j. el A i j - el B i j)"

definition mat_mul :: "sgmatrix \<Rightarrow> sgmatrix \<Rightarrow> sgmatrix" where
  "mat_mul A B = mk_matrix (num_rows A) (num_cols B)
     (\<lambda>i j. sum_list (map (\<lambda>k. el A i k * el B k j) [0..<num_cols A]))"

definition adjoint :: "sgmatrix \<Rightarrow> sgmatrix" where
  "adjoint A = mk_matrix (num_cols A) (num_rows A) (\<lambda>i j. el A j i)"

definition asDiagonal :: "sgvector \<Rightarrow> sgmatrix" where
  "asDiagonal x = mk_matrix (length x) (length x) (\<lambda>i j. if i = j then x ! i else 0)"

definition cwiseProduct :: "sgmatrix \<Rightarrow> sgmatrix \<Rightarrow> sgmatrix" where
  "cwiseProduct A B = mk_matrix (num_rows A) (num_cols A) (\<lambda>i j. el A i j * el B i j)"

definition colwise_sum :: "sgmatrix \<Rightarrow> sgvector" where
  "colwise_sum A = mk_vector (num_cols A) (\<lambda>j. sum_list (map (\<lambda>i. el A i j) [0..<num_rows A]))"

definition mat_sum :: "sgmatrix \<Rightarrow> real" where
  "mat_sum A = sum_list (map (\<lambda>j. sum_list (map (\<lambda>i. el A i j) [0..<num_rows A])) [0..<num_cols A])"

definition diagonal :: "sgmatrix \<Rightarrow> sgvector" where
  "diagonal A = mk_vector (min (num_rows A) (num_cols A)) (\<lambda>i. el A i i)"

definition mat_vec :: "sgmatrix \<Rightarrow> sgvector \<Rightarrow> sgvector" where
  "mat_vec A x = mk_vector (num_rows A) (\<lambda>i. sum_list (map (\<lambda>k. el A i k * x ! k) [0..<num_cols A]))"

definition vec_scale :: "sgvector \<Rightarrow> real \<Rightarrow> sgvector" where
  "vec_scale x c = mk_vector (length x) (\<lambda>i. x ! i * c)"

definition scale_vec :: "real \<Rightarrow> sgvector \<Rightarrow> sgvector" where
  "scale_vec c x = mk_vector (length x) (\<lambda>i. c * x ! i)"

definition vec_add :: "sgvector \<Rightarrow> sgvector \<Rightarrow> sgvector" where
  "vec_add x y = mk_vector (length x) (\<lambda>i. x ! i + y ! i)"

definition vec_sub :: "sgvector \<Rightarrow> sgvector \<Rightarrow> sgvector" where
  "vec_sub x y = mk_vector (length x) (\<lambda>i. x ! i - y ! i)"

definition vec_cwiseProduct :: "sgvector \<Rightarrow> sgvector \<Rightarrow> sgvector" where
  "vec_cwiseProduct x y = mk_vector (length x) (\<lambda>i. x ! i * y ! i)"

definition vec_cwiseQuotient :: "sgvector \<Rightarrow> sgvector \<Rightarrow> sgvector" where
  "vec_cwiseQuotient x y = mk_vector (length x) (\<lambda>i. x ! i / y ! i)"

definition vec_sum :: "sgvector \<Rightarrow> real" where
  "vec_sum x = sum_list x"

definition dot :: "sgvector \<Rightarrow> sgvector \<Rightarrow> real" where
  "dot x y = sum_list (map (\<lambda>i. x ! i * y ! i) [0..<length x])"

text \<open>
  The dense-algebra provider: the upper Cholesky factor of a matrix (\<open>LLT::matrixU\<close>),
  the solve through that factorization (\<open>LLT::solve\<close>), and the solves with an upper
  triangular matrix and with its adjoint
  (\<open>triangularView<Upper>().solve\<close>, \<open>triangularView<Upper>().adjoint().solve\<close>).
\<close>

record algebra =
  llt_matrixU :: "sgmatrix \<Rightarrow> sgmatrix"
  llt_solve :: "sgmatrix \<Rightarrow> sgmatrix \<Rightarrow> sgmatrix"
  upper_solve :: "sgmatrix \<Rightarrow> sgmatrix \<Rightarrow> sgmatrix"
  upper_adjoint_solve :: "sgmatrix \<Rightarrow> sgmatrix \<Rightarrow> sgmatrix"

subsection \<open>The engine state\<close>

text \<open>
  The enumerations are declared in headers outside the file; only the enumerators the
  file names are kept apart, every other enumerator is \<open>_OTHER n\<close>.
\<close>

datatype EInferenceType = INF_FITC_REGRESSION | INF_OTHER nat

datatype ELikelihoodModelType = LT_GAUSSIAN | LT_OTHER_MODEL nat

datatype ELabelType = LT_REGRESSION | LT_OTHER_LABEL nat

text \<open>
  The first group of fields is what the collaborators of the engine answer at the moment:
  \<^item> \<open>base_check_members\<close>: the exception \<open>SingleFITCInference::check_members()\<close> throws, if any;
  \<^item> \<open>model_type\<close>, \<open>model_name\<close>: \<open>m_model->get_model_type()\<close>, \<open>m_model->get_name()\<close>;
  \<^item> \<open>lik_sigma\<close>: \<open>m_model->as<GaussianLikelihood>()->get_sigma()\<close>, the noise scale, or
    the exception of the cast when the likelihood is not a GaussianLikelihood;
  \<^item> \<open>label_type\<close>, \<open>labels\<close>: \<open>m_labels->get_label_type()\<close> and
    \<open>regression_labels(m_labels)->get_labels()\<close>;
  \<^item> \<open>mean_vector\<close>: \<open>m_mean->get_mean_vector(m_features)\<close>;
  \<^item> \<open>kernel_uu\<close>, \<open>kernel_tru\<close>, \<open>kernel_trtr_diag\<close>: the covariance of the inducing
    features, of inducing against training features, and the diagonal of the covariance
    of the training features, as the kernel evaluates them now;
  \<^item> \<open>param_hash\<close>: the hash of the current hyperparameters.
  The second group is the cache the engine owns. \<open>update_calls\<close> and
  \<open>update_deriv_calls\<close> are instrumentation: they count the runs of \<open>update()\<close> and of
  \<open>update_deriv()\<close> and are read by nothing.
\<close>

record fitc =
  base_check_members :: "sg_error option"
  model_type :: ELikelihoodModelType
  model_name :: string
  lik_sigma :: "sg_error + real"
  label_type :: ELabelType
  labels :: sgvector
  mean_vector :: sgvector
  kernel_uu :: sgmatrix
  kernel_tru :: sgmatrix
  kernel_trtr_diag :: sgvector
  param_hash :: nat
  m_log_scale :: real
  m_log_ind_noise :: real
  m_kuu :: sgmatrix
  m_ktru :: sgmatrix
  m_ktrtr_diag :: sgvector
  m_chol_uu :: sgmatrix
  m_V :: sgmatrix
  m_t :: sgvector
  m_chol_utr :: sgmatrix
  m_r :: sgvector
  m_be :: sgvector
  m_L :: sgmatrix
  m_alpha :: sgvector
  m_al :: sgvector
  m_B :: sgmatrix
  m_w :: sgvector
  m_Rvdd :: sgmatrix
  m_mu :: sgvector
  m_Sigma :: sgmatrix
  m_gradient_update :: bool
  m_hash :: nat
  update_calls :: nat
  update_deriv_calls :: nat

subsection \<open>The base class\<close>

text \<open>
  Modelled from the spec: \<open>SGObject::parameter_hash_changed\<close> and
  \<open>SGObject::update_parameter_hash\<close> are not in the file. The spec describes an opaque hash
  over all hyperparameters; the engine recomputes only when it differs from the one
  recorded at the last \<open>update()\<close> or \<open>compute_gradient()\<close>.
\<close>

definition parameter_hash_changed :: "fitc \<Rightarrow> bool" where
  "parameter_hash_changed s = (m_hash s \<noteq> param_hash s)"

definition update_parameter_hash :: "fitc \<Rightarrow> fitc" where
  "update_parameter_hash s = s\<lparr>m_hash := param_hash s\<rparr>"

text \<open>
  \<open>FITCInferenceMethod::check_members\<close> (lines 100-108): the checks of the base class,
  then the likelihood must be Gaussian and the labels regression labels.
\<close>

definition check_members :: "fitc \<Rightarrow> sg_error + unit" where
  "check_members s =
     bind_err (case base_check_members s of Some e \<Rightarrow> Inl e | None \<Rightarrow> Inr ()) (\<lambda>_.
     bind_err (require (model_type s = LT_GAUSSIAN)
       ''FITC inference method can only use Gaussian likelihood function'' []) (\<lambda>_.
     require (label_type s = LT_REGRESSION) ''Labels must be type of RegressionLabels'' []))"

text \<open>
  Modelled from the spec: \<open>Inference::update\<close> is not in the file. The spec gives its
  preconditions (Gaussian likelihood, regression labels: the virtual \<open>check_members\<close>) and
  says that \<open>update()\<close> always recomputes Kuu, Ktru and the diagonal from the covariance
  provider.
\<close>

definition update_train_kernel :: "fitc \<Rightarrow> fitc" where
  "update_train_kernel s =
     s\<lparr>m_kuu := kernel_uu s, m_ktru := kernel_tru s, m_ktrtr_diag := kernel_trtr_diag s\<rparr>"

definition Inference_update :: "fitc \<Rightarrow> sg_error + fitc" where
  "Inference_update s = bind_err (check_members s) (\<lambda>_. Inr (update_train_kernel s))"

subsection \<open>The factorization\<close>

text \<open>\<open>FITCInferenceMethod::update_chol\<close> (lines 151-248), statement by statement.\<close>

definition update_chol :: "algebra \<Rightarrow> fitc \<Rightarrow> sg_error + fitc" where
  "update_chol alg s =
     bind_err (lik_sigma s) (\<lambda>sigma. Inr (
       let eigen_kuu = m_kuu s;
           eigen_ktru = m_ktru s;
           eigen_ktrtr_diag = m_ktrtr_diag s;
           kuu_rows = num_rows (m_kuu s);
           kuu_cols = num_cols (m_kuu s);
           Luu_arg = mat_add (mat_scale eigen_kuu (exp (m_log_scale s * 2)))
                       (scale_mat (exp (m_log_ind_noise s)) (Identity kuu_rows kuu_cols));
           chol_uu = assign_matrix (num_rows Luu_arg) (num_cols Luu_arg) (llt_matrixU alg Luu_arg);
           V = assign_matrix (num_cols chol_uu) (num_cols eigen_ktru)
                 (upper_adjoint_solve alg chol_uu (mat_scale eigen_ktru (exp (m_log_scale s * 2))));
           vlen = length eigen_ktrtr_diag;
           dg = assign_vector vlen
                  (vec_sub
                     (vec_add (vec_scale eigen_ktrtr_diag (exp (m_log_scale s * 2)))
                        (scale_vec (sq sigma) (Ones vlen)))
                     (colwise_sum (cwiseProduct V V)));
           t = assign_vector vlen (vec_cwiseQuotient (Ones (length dg)) dg);
           Lu_arg = mat_add
                      (mat_mul (mat_mul V (asDiagonal (vec_cwiseProduct (Ones vlen) t))) (adjoint V))
                      (Identity kuu_rows kuu_cols);
           chol_utr = assign_matrix (num_rows Lu_arg) (num_cols Lu_arg) (llt_matrixU alg Lu_arg);
           y = labels s;
           m = mean_vector s;
           sqrt_t = map sqrt t;
           r = assign_vector (length y) (vec_cwiseProduct (vec_sub y m) sqrt_t);
           be = assign_vector (num_cols chol_utr)
                  (matrix (upper_adjoint_solve alg chol_utr
                     (col_vector (mat_vec V (vec_cwiseProduct r sqrt_t)))));
           iKuu = llt_solve alg Luu_arg (Identity kuu_rows kuu_cols);
           eigen_prod = mat_mul chol_utr chol_uu;
           L1 = assign_matrix kuu_rows kuu_cols
                  (upper_adjoint_solve alg eigen_prod (Identity kuu_rows kuu_cols));
           L2 = assign_matrix kuu_rows kuu_cols (mat_sub (upper_solve alg eigen_prod L1) iKuu)
       in s\<lparr>m_chol_uu := chol_uu, m_V := V, m_t := t, m_chol_utr := chol_utr,
            m_r := r, m_be := be, m_L := L2\<rparr>))"

text \<open>\<open>FITCInferenceMethod::update_alpha\<close> (lines 250-267).\<close>

definition update_alpha :: "algebra \<Rightarrow> fitc \<Rightarrow> fitc" where
  "update_alpha alg s =
     (let n = num_rows (m_chol_uu s);
          alpha1 = assign_vector n (matrix (upper_solve alg (m_chol_utr s) (col_vector (m_be s))));
          alpha2 = assign_vector n (matrix (upper_solve alg (m_chol_uu s) (col_vector alpha1)))
      in s\<lparr>m_alpha := alpha2\<rparr>)"

text \<open>\<open>FITCInferenceMethod::update\<close> (lines 75-86).\<close>

definition update :: "algebra \<Rightarrow> fitc \<Rightarrow> sg_error + fitc" where
  "update alg s =
     bind_err (Inference_update (s\<lparr>update_calls := Suc (update_calls s)\<rparr>)) (\<lambda>s1.
     bind_err (update_chol alg s1) (\<lambda>s2.
       Inr (update_parameter_hash ((update_alpha alg s2)\<lparr>m_gradient_update := False\<rparr>))))"

subsection \<open>The derivative quantities\<close>

text \<open>\<open>FITCInferenceMethod::update_deriv\<close> (lines 269-329).\<close>

definition update_deriv :: "algebra \<Rightarrow> fitc \<Rightarrow> fitc" where
  "update_deriv alg s =
     (let eigen_Ktru = m_ktru s;
          eigen_Lu = m_chol_utr s;
          eigen_Luu = m_chol_uu s;
          eigen_t = m_t s;
          eigen_be = m_be s;
          y = labels s;
          m = mean_vector s;
          V = m_V s;
          kuu_rows = num_rows (m_kuu s);
          kuu_cols = num_cols (m_kuu s);
          al = assign_vector (length m)
                 (vec_cwiseProduct
                    (vec_sub (vec_sub y m)
                       (mat_vec (adjoint V) (matrix (upper_solve alg eigen_Lu (col_vector eigen_be)))))
                    eigen_t);
          iKuu1 = upper_adjoint_solve alg eigen_Luu (Identity kuu_rows kuu_cols);
          iKuu = upper_solve alg eigen_Luu iKuu1;
          B = assign_matrix (num_rows iKuu) (num_cols eigen_Ktru)
                (mat_scale (mat_mul iKuu eigen_Ktru) (exp (m_log_scale s * 2)));
          w = assign_vector (num_rows B) (mat_vec B al);
          W = assign_matrix (num_cols (m_chol_utr s)) (length (m_t s))
                (upper_adjoint_solve alg eigen_Lu
                   (mat_mul V (asDiagonal (vec_cwiseProduct (Ones (length (m_t s))) eigen_t))))
      in s\<lparr>m_al := al, m_B := B, m_w := w, m_Rvdd := W,
            update_deriv_calls := Suc (update_deriv_calls s)\<rparr>)"

text \<open>
  Modelled from the spec: \<open>Inference::compute_gradient\<close> is not in the file. By the spec,
  gradient-dependent paths first check the hash and run \<open>update()\<close> when it is stale, so
  that the factorization is current before the derivative quantities are computed.
\<close>

definition Inference_compute_gradient :: "algebra \<Rightarrow> fitc \<Rightarrow> sg_error + fitc" where
  "Inference_compute_gradient alg s = (if parameter_hash_changed s then update alg s else Inr s)"

text \<open>\<open>FITCInferenceMethod::compute_gradient\<close> (lines 63-73).\<close>

definition compute_gradient :: "algebra \<Rightarrow> fitc \<Rightarrow> sg_error + fitc" where
  "compute_gradient alg s =
     bind_err (Inference_compute_gradient alg s) (\<lambda>s1.
       if \<not> m_gradient_update s1
       then Inr (update_parameter_hash ((update_deriv alg s1)\<lparr>m_gradient_update := True\<rparr>))
       else Inr s1)"

subsection \<open>The accessors\<close>

text \<open>
  \<open>FITCInferenceMethod::obtain_from_generic\<close> (lines 88-98). The handle is null or points
  to an inference object; \<open>get_inference_type\<close> reads the tag of the object and \<open>as_FITC\<close>
  is the checked cast \<open>as<FITCInferenceMethod>()\<close>, both declared outside the file.
\<close>

definition obtain_from_generic ::
  "('o \<Rightarrow> EInferenceType) \<Rightarrow> ('o \<Rightarrow> sg_error + 'f) \<Rightarrow> 'o option \<Rightarrow> sg_error + 'f option" where
  "obtain_from_generic get_inference_type as_FITC inference =
     (case inference of
        None \<Rightarrow> Inr None
      | Some obj \<Rightarrow>
          if get_inference_type obj \<noteq> INF_FITC_REGRESSION
          then Inl (ShogunException ''Provided inference is not of type FITCInferenceMethod!'')
          else bind_err (as_FITC obj) (\<lambda>f. Inr (Some f)))"

text \<open>\<open>FITCInferenceMethod::get_negative_log_marginal_likelihood\<close> (lines 126-149).\<close>

definition get_negative_log_marginal_likelihood :: "algebra \<Rightarrow> fitc \<Rightarrow> sg_error + real \<times> fitc" where
  "get_negative_log_marginal_likelihood alg s =
     bind_err (if parameter_hash_changed s then update alg s else Inr s) (\<lambda>s1.
       let eigen_chol_utr = m_chol_utr s1;
           eigen_t = m_t s1;
           eigen_r = m_r s1;
           eigen_be = m_be s1;
           result = vec_sum (map ln (diagonal eigen_chol_utr)) +
                    (- vec_sum (map ln eigen_t) + dot eigen_r eigen_r - dot eigen_be eigen_be +
                     real (length (m_ktrtr_diag s1)) * ln (2 * pi)) / 2
       in Inr (result, s1))"

text \<open>\<open>FITCInferenceMethod::get_posterior_mean\<close> (lines 332-360).\<close>

definition get_posterior_mean :: "algebra \<Rightarrow> fitc \<Rightarrow> sg_error + sgvector \<times> fitc" where
  "get_posterior_mean alg s =
     bind_err (compute_gradient alg s) (\<lambda>s1.
       let eigen_alpha = m_alpha s1;
           eigen_Ktru = m_ktru s1;
           mu = assign_vector (length (m_al s1))
                  (mat_vec (scale_mat (exp (m_log_scale s1 * 2)) (adjoint eigen_Ktru)) eigen_alpha)
       in Inr (mu, s1\<lparr>m_mu := mu\<rparr>))"

text \<open>\<open>FITCInferenceMethod::get_posterior_covariance\<close> (lines 362-402).\<close>

definition get_posterior_covariance :: "algebra \<Rightarrow> fitc \<Rightarrow> sg_error + sgmatrix \<times> fitc" where
  "get_posterior_covariance alg s =
     bind_err (compute_gradient alg s) (\<lambda>s1.
       let n = length (m_ktrtr_diag s1);
           eigen_V = m_V s1;
           eigen_Lu = m_chol_utr s1;
           eigen_ktrtr_diag = m_ktrtr_diag s1;
           part1 = mat_mul (adjoint eigen_V)
                     (upper_solve alg eigen_Lu (Identity (num_rows (m_kuu s1)) (num_cols (m_kuu s1))));
           Sigma1 = assign_matrix n n (mat_mul part1 (adjoint part1));
           part2 = vec_sub (vec_scale eigen_ktrtr_diag (exp (m_log_scale s1 * 2)))
                     (colwise_sum (cwiseProduct eigen_V eigen_V));
           Sigma2 = assign_matrix n n (mat_add Sigma1 (asDiagonal part2))
       in Inr (Sigma2, s1\<lparr>m_Sigma := Sigma2\<rparr>))"

text \<open>
  \<open>FITCInferenceMethod::get_derivative_wrt_likelihood_model\<close> (lines 404-431). The
  parameter is a pair whose first component is the name.
\<close>

definition get_derivative_wrt_likelihood_model :: "string \<times> 'p \<Rightarrow> fitc \<Rightarrow> sg_error + sgvector" where
  "get_derivative_wrt_likelihood_model param s =
     bind_err (require (fst param = ''log_sigma'')
       ''Can't compute derivative of the nagative log marginal likelihood wrt {}.{} parameter''
       [model_name s, fst param]) (\<lambda>_.
     bind_err (lik_sigma s) (\<lambda>sigma.
       let eigen_t = m_t s;
           eigen_al = m_al s;
           eigen_W = m_Rvdd s
       in Inr [sq sigma *
                 (vec_sum (vec_cwiseProduct (Ones (length (m_t s))) eigen_t)
                  - mat_sum (cwiseProduct eigen_W eigen_W) - dot eigen_al eigen_al)]))"

text \<open>
  Modelled from the spec: the caller of \<open>get_derivative_wrt_likelihood_model\<close> (the
  gradient entry point of the base class) is not in the file. By the spec the accessor
  requires \<open>compute_gradient()\<close> to have run, and the engine triggers it internally via
  the caller path: gradient accessors always route through \<open>compute_gradient()\<close> first.
  The caller path is therefore \<open>compute_gradient()\<close> followed by the accessor on the
  state it leaves; an error of either is the error of the whole.
\<close>

definition gradient_wrt_likelihood_model ::
  "algebra \<Rightarrow> string \<times> 'p \<Rightarrow> fitc \<Rightarrow> sg_error + sgvector \<times> fitc" where
  "gradient_wrt_likelihood_model alg param s =
     bind_err (compute_gradient alg s) (\<lambda>s1.
     bind_err (get_derivative_wrt_likelihood_model param s1) (\<lambda>g. Inr (g, s1)))"

subsection \<open>Properties of the engine state used in the statements\<close>

text \<open>
  The derivative quantities of a state are current when they are the ones
  \<open>update_deriv()\<close> computes from the factorization the state holds.
\<close>

definition deriv_current :: "algebra \<Rightarrow> fitc \<Rightarrow> bool" where
  "deriv_current alg s =
     (m_al s = m_al (update_deriv alg s) \<and> m_B s = m_B (update_deriv alg s) \<and>
      m_w s = m_w (update_deriv alg s) \<and> m_Rvdd s = m_Rvdd (update_deriv alg s))"

text \<open>
  The engine keeps the gradient flag honest: when the hash is unchanged and the flag says
  that the gradient is up to date, the derivative quantities are current.
\<close>

definition deriv_inv :: "algebra \<Rightarrow> fitc \<Rightarrow> bool" where
  "deriv_inv alg s = (\<not> parameter_hash_changed s \<and> m_gradient_update s \<longrightarrow> deriv_current alg s)"

text \<open>
  Shapes. The collaborators agree on the number \<open>n\<close> of training points (the length of
  the kernel diagonal) and the inducing covariance is square; while the hash is unchanged
  the cache has the shapes \<open>update()\<close> and \<open>update_deriv()\<close> give it.
\<close>

definition shapes_ok :: "fitc \<Rightarrow> bool" where
  "shapes_ok s =
     (num_rows (kernel_uu s) = num_cols (kernel_uu s) \<and>
      num_cols (kernel_tru s) = length (kernel_trtr_diag s) \<and>
      length (mean_vector s) = length (kernel_trtr_diag s) \<and>
      (\<not> parameter_hash_changed s \<longrightarrow>
         num_rows (m_kuu s) = num_rows (m_V s) \<and>
         num_cols (m_kuu s) = num_rows (m_V s) \<and>
         num_cols (m_ktru s) = length (kernel_trtr_diag s) \<and>
         length (m_ktrtr_diag s) = length (kernel_trtr_diag s) \<and>
         num_cols (m_V s) = length (kernel_trtr_diag s) \<and>
         (m_gradient_update s \<longrightarrow> length (m_al s) = length (kernel_trtr_diag s))))"

subsection \<open>A reference algebra provider and a problem with one training point\<close>

text \<open>
  To run the engine on concrete data the provider is instantiated with the textbook
  algorithms: Cholesky factorization row by row, back substitution for an upper triangular
  system and forward substitution for its adjoint.
\<close>

primrec back_substitute :: "sgmatrix \<Rightarrow> (nat \<Rightarrow> real) \<Rightarrow> nat \<Rightarrow> nat \<Rightarrow> real list" where
  "back_substitute U b n 0 = []"
| "back_substitute U b n (Suc k) =
     (let xs = back_substitute U b n k; i = n - Suc k
      in (b i - sum_list (map (\<lambda>l. el U i (Suc i + l) * xs ! l) [0..<k])) / el U i i # xs)"

primrec forward_substitute :: "sgmatrix \<Rightarrow> (nat \<Rightarrow> real) \<Rightarrow> nat \<Rightarrow> real list" where
  "forward_substitute U b 0 = []"
| "forward_substitute U b (Suc i) =
     (let xs = forward_substitute U b i
      in xs @ [(b i - sum_list (map (\<lambda>k. el U k i * xs ! k) [0..<i])) / el U i i])"

primrec cholesky_rows :: "sgmatrix \<Rightarrow> nat \<Rightarrow> nat \<Rightarrow> real list list" where
  "cholesky_rows A n 0 = []"
| "cholesky_rows A n (Suc i) =
     (let rs = cholesky_rows A n i;
          d = sqrt (el A i i - sum_list (map (\<lambda>k. rs ! k ! i * rs ! k ! i) [0..<i]))
      in rs @ [map (\<lambda>j. if j < i then 0 else if j = i then d
                          else (el A i j - sum_list (map (\<lambda>k. rs ! k ! i * rs ! k ! j) [0..<i])) / d)
                 [0..<n]])"

definition ref_matrixU :: "sgmatrix \<Rightarrow> sgmatrix" where
  "ref_matrixU A = mk_matrix (num_rows A) (num_cols A)
     (\<lambda>i j. cholesky_rows A (num_cols A) (num_rows A) ! i ! j)"

definition ref_upper_solve :: "sgmatrix \<Rightarrow> sgmatrix \<Rightarrow> sgmatrix" where
  "ref_upper_solve U B = mk_matrix (num_rows B) (num_cols B)
     (\<lambda>i j. back_substitute U (\<lambda>k. el B k j) (num_rows U) (num_rows U) ! i)"

definition ref_upper_adjoint_solve :: "sgmatrix \<Rightarrow> sgmatrix \<Rightarrow> sgmatrix" where
  "ref_upper_adjoint_solve U B = mk_matrix (num_rows B) (num_cols B)
     (\<lambda>i j. forward_substitute U (\<lambda>k. el B k j) (num_rows U) ! i)"

definition ref_alg :: algebra where
  "ref_alg = \<lparr>llt_matrixU = ref_matrixU,
              llt_solve = (\<lambda>A B. ref_upper_solve (ref_matrixU A) (ref_upper_adjoint_solve (ref_matrixU A) B)),
              upper_solve = ref_upper_solve,
              upper_adjoint_solve = ref_upper_adjoint_solve\<rparr>"

definition mat1 :: "real \<Rightarrow> sgmatrix" where
  "mat1 x = \<lparr>num_rows = 1, num_cols = 1, matrix = [x]\<rparr>"

definition mat0 :: sgmatrix where
  "mat0 = \<lparr>num_rows = 0, num_cols = 0, matrix = []\<rparr>"

text \<open>
  One inducing point, one training point: \<open>Kuu = 3\<close>, \<open>Ktru = 3/2\<close>, \<open>diag K = 21/16\<close>
  (a positive definite joint covariance), noise scale \<open>1/2\<close>, both log hyperparameters
  \<open>0\<close>, target \<open>2\<close>, prior mean \<open>0\<close>. \<open>demo0\<close> is the engine before its first
  update; \<open>demo1\<close> is its state after \<open>update()\<close> and \<open>demo2\<close> after
  \<open>compute_gradient()\<close>.
\<close>

definition demo0 :: fitc where
  "demo0 = \<lparr>base_check_members = None, model_type = LT_GAUSSIAN, model_name = ''GaussianLikelihood'',
     lik_sigma = Inr (1/2), label_type = LT_REGRESSION, labels = [2], mean_vector = [0],
     kernel_uu = mat1 3, kernel_tru = mat1 (3/2), kernel_trtr_diag = [21/16],
     param_hash = 1, m_log_scale = 0, m_log_ind_noise = 0,
     m_kuu = mat0, m_ktru = mat0, m_ktrtr_diag = [], m_chol_uu = mat0, m_V = mat0, m_t = [],
     m_chol_utr = mat0, m_r = [], m_be = [], m_L = mat0, m_alpha = [], m_al = [], m_B = mat0,
     m_w = [], m_Rvdd = mat0, m_mu = [], m_Sigma = mat0, m_gradient_update = False, m_hash = 0,
     update_calls = 0, update_deriv_calls = 0\<rparr>"

definition demo_kernel :: fitc where
  "demo_kernel = demo0\<lparr>update_calls := 1, m_kuu := mat1 3, m_ktru := mat1 (3/2), m_ktrtr_diag := [21/16]\<rparr>"

definition demo_chol :: fitc where
  "demo_chol = demo_kernel\<lparr>m_chol_uu := mat1 2, m_V := mat1 (3/4), m_t := [1],
     m_chol_utr := mat1 (5/4), m_r := [2], m_be := [6/5], m_L := mat1 (- 9/100)\<rparr>"

definition demo1 :: fitc where
  "demo1 = demo_chol\<lparr>m_alpha := [12/25], m_gradient_update := False, m_hash := 1\<rparr>"

definition demo2 :: fitc where
  "demo2 = demo1\<lparr>m_al := [32/25], m_B := mat1 (3/8), m_w := [12/25], m_Rvdd := mat1 (3/5),
     update_deriv_calls := 1, m_gradient_update := True\<rparr>"

text \<open>
  A degenerate problem: the inducing covariance explains more variance of the training
  point than the point has, \<open>diag K + sigma^2 - V^2 = 1 + 1 - 4\<close>.
\<close>

definition demo_degenerate :: fitc where
  "demo_degenerate = demo0\<lparr>lik_sigma := Inr 1, kernel_tru := mat1 4, kernel_trtr_diag := [1]\<rparr>"

text \<open>
  \<open>demo_other\<close> has the factorization of \<open>demo2\<close> and other derivative quantities.
  \<open>demo_stale\<close> is \<open>demo2\<close> after a kernel hyperparameter has changed: the kernel now
  answers \<open>Ktru = 8/3\<close> and \<open>diag K = 91/36\<close> and the hash is another one, while the cache
  is the one of the first generation. \<open>demo3\<close> is its state after \<open>update()\<close> and
  \<open>demo4\<close> after \<open>compute_gradient()\<close>.
\<close>

definition demo_other :: fitc where
  "demo_other = demo2\<lparr>m_al := [0], m_B := mat1 0, m_w := [0], m_Rvdd := mat1 0\<rparr>"

definition demo_stale :: fitc where
  "demo_stale = demo2\<lparr>kernel_tru := mat1 (8 / 3), kernel_trtr_diag := [91 / 36], param_hash := 2\<rparr>"

definition stale_kernel :: fitc where
  "stale_kernel = demo_stale\<lparr>update_calls := 2, m_kuu := mat1 3, m_ktru := mat1 (8 / 3),
     m_ktrtr_diag := [91 / 36]\<rparr>"

definition stale_chol :: fitc where
  "stale_chol = stale_kernel\<lparr>m_chol_uu := mat1 2, m_V := mat1 (4 / 3), m_t := [1],
     m_chol_utr := mat1 (5 / 3), m_r := [2], m_be := [8 / 5], m_L := mat1 (- 4 / 25)\<rparr>"

definition demo3 :: fitc where
  "demo3 = stale_chol\<lparr>m_alpha := [12 / 25], m_gradient_update := False, m_hash := 2\<rparr>"

definition demo4 :: fitc where
  "demo4 = demo3\<lparr>m_al := [18 / 25], m_B := mat1 (2 / 3), m_w := [12 / 25], m_Rvdd := mat1 (4 / 5),
     update_deriv_calls := 2, m_gradient_update := True\<rparr>"

text \<open>
  A problem with one inducing point and two training points: \<open>Kuu = 3\<close>,
  \<open>Ktru = (2/3, 1)\<close>, \<open>diag K = (31/36, 1)\<close>, noise scale \<open>1/2\<close>, targets \<open>(1, 2)\<close>,
  prior mean \<open>0\<close>. \<open>duo1\<close> is the state after \<open>update()\<close> and \<open>duo2\<close> after
  \<open>compute_gradient()\<close>. \<open>row2\<close>, \<open>col2\<close> and \<open>mat2\<close> write small matrices row by row.
\<close>

definition row2 :: "real \<Rightarrow> real \<Rightarrow> sgmatrix" where
  "row2 a b = \<lparr>num_rows = 1, num_cols = 2, matrix = [a, b]\<rparr>"

definition col2 :: "real \<Rightarrow> real \<Rightarrow> sgmatrix" where
  "col2 a b = \<lparr>num_rows = 2, num_cols = 1, matrix = [a, b]\<rparr>"

definition mat2 :: "real \<Rightarrow> real \<Rightarrow> real \<Rightarrow> real \<Rightarrow> sgmatrix" where
  "mat2 a b c d = \<lparr>num_rows = 2, num_cols = 2, matrix = [a, c, b, d]\<rparr>"

definition duo0 :: fitc where
  "duo0 = demo0\<lparr>labels := [1, 2], mean_vector := [0, 0], kernel_tru := row2 (2 / 3) 1,
     kernel_trtr_diag := [31 / 36, 1]\<rparr>"

definition duo_kernel :: fitc where
  "duo_kernel = duo0\<lparr>update_calls := 1, m_kuu := mat1 3, m_ktru := row2 (2 / 3) 1,
     m_ktrtr_diag := [31 / 36, 1]\<rparr>"

definition duo_chol :: fitc where
  "duo_chol = duo_kernel\<lparr>m_chol_uu := mat1 2, m_V := row2 (1 / 3) (1 / 2), m_t := [1, 1],
     m_chol_utr := mat1 (7 / 6), m_r := [1, 2], m_be := [8 / 7], m_L := mat1 (- 13 / 196)\<rparr>"

definition duo1 :: fitc where
  "duo1 = duo_chol\<lparr>m_alpha := [24 / 49], m_gradient_update := False, m_hash := 1\<rparr>"

definition duo2 :: fitc where
  "duo2 = duo1\<lparr>m_al := [33 / 49, 74 / 49], m_B := row2 (1 / 6) (1 / 4), m_w := [24 / 49],
     m_Rvdd := row2 (2 / 7) (3 / 7), update_deriv_calls := 1, m_gradient_update := True\<rparr>"

section \<open>Basic facts\<close>

lemma el_mk_matrix: "i < r \<Longrightarrow> j < c \<Longrightarrow> el (mk_matrix r c f) i j = f i j"
proof -
  assume i: "i < r" and j: "j < c"
  have "j * r + i < Suc j * r" using i by simp
  also have "\<dots> \<le> c * r" using j by (intro mult_le_mono1) simp
  finally have lt: "j * r + i < r * c" by (simp add: mult.commute)
  have "(j * r + i) mod r = i" "(j * r + i) div r = j" using i by simp_all
  with lt show ?thesis by (simp add: el_def mk_matrix_def)
qed

lemma shape_mk_matrix: "num_rows (mk_matrix r c f) = r" "num_cols (mk_matrix r c f) = c"
  by (simp_all add: mk_matrix_def)

lemma length_mk_vector: "length (mk_vector n f) = n"
  by (simp add: mk_vector_def)

lemma nth_mk_vector: "i < n \<Longrightarrow> mk_vector n f ! i = f i"
  by (simp add: mk_vector_def)

lemma sum_list_upt: "sum_list (map f [0..<n]) = (\<Sum>i<n. f i)"
  by (induction n) simp_all

lemma format_two:
  "format_msg ''Can't compute derivative of the nagative log marginal likelihood wrt {}.{} parameter'' [a, b] =
   ''Can't compute derivative of the nagative log marginal likelihood wrt '' @ a @ ''.'' @ b @ '' parameter''"
  by simp

subsection \<open>Shapes and coefficients of the Eigen operations\<close>

lemma shape_assign_matrix [simp]:
  "num_rows (assign_matrix r c X) = r" "num_cols (assign_matrix r c X) = c"
  by (simp_all add: assign_matrix_def shape_mk_matrix)

lemma shape_ops [simp]:
  "num_rows (Identity r c) = r" "num_cols (Identity r c) = c"
  "num_rows (mat_scale A x) = num_rows A" "num_cols (mat_scale A x) = num_cols A"
  "num_rows (scale_mat x A) = num_rows A" "num_cols (scale_mat x A) = num_cols A"
  "num_rows (mat_add A B) = num_rows A" "num_cols (mat_add A B) = num_cols A"
  "num_rows (mat_sub A B) = num_rows A" "num_cols (mat_sub A B) = num_cols A"
  "num_rows (mat_mul A B) = num_rows A" "num_cols (mat_mul A B) = num_cols B"
  "num_rows (adjoint A) = num_cols A" "num_cols (adjoint A) = num_rows A"
  "num_rows (asDiagonal v) = length v" "num_cols (asDiagonal v) = length v"
  "num_rows (cwiseProduct A B) = num_rows A" "num_cols (cwiseProduct A B) = num_cols A"
  by (simp_all add: Identity_def mat_scale_def scale_mat_def mat_add_def mat_sub_def mat_mul_def
      adjoint_def asDiagonal_def cwiseProduct_def shape_mk_matrix)

lemma length_ops [simp]:
  "length (assign_vector n x) = n" "length (Ones n) = n"
  "length (vec_scale x c) = length x" "length (scale_vec c x) = length x"
  "length (vec_add x y) = length x" "length (vec_sub x y) = length x"
  "length (vec_cwiseProduct x y) = length x" "length (vec_cwiseQuotient x y) = length x"
  "length (colwise_sum A) = num_cols A" "length (mat_vec A x) = num_rows A"
  "length (diagonal A) = min (num_rows A) (num_cols A)"
  by (simp_all add: assign_vector_def Ones_def vec_scale_def scale_vec_def vec_add_def vec_sub_def
      vec_cwiseProduct_def vec_cwiseQuotient_def colwise_sum_def mat_vec_def diagonal_def
      length_mk_vector)

lemma el_assign_matrix: "i < r \<Longrightarrow> j < c \<Longrightarrow> el (assign_matrix r c X) i j = el X i j"
  by (simp add: assign_matrix_def el_mk_matrix)

lemma nth_ops:
  "i < n \<Longrightarrow> assign_vector n x ! i = x ! i"
  "i < n \<Longrightarrow> Ones n ! i = 1"
  "i < length x \<Longrightarrow> vec_scale x c ! i = x ! i * c"
  "i < length x \<Longrightarrow> scale_vec c x ! i = c * x ! i"
  "i < length x \<Longrightarrow> vec_add x y ! i = x ! i + y ! i"
  "i < length x \<Longrightarrow> vec_sub x y ! i = x ! i - y ! i"
  "i < length x \<Longrightarrow> vec_cwiseProduct x y ! i = x ! i * y ! i"
  "i < length x \<Longrightarrow> vec_cwiseQuotient x y ! i = x ! i / y ! i"
  "i < num_rows A \<Longrightarrow> mat_vec A x ! i = (\<Sum>k<num_cols A. el A i k * x ! k)"
  by (simp_all add: assign_vector_def Ones_def vec_scale_def scale_vec_def vec_add_def vec_sub_def
      vec_cwiseProduct_def vec_cwiseQuotient_def mat_vec_def nth_mk_vector sum_list_upt)

lemma nth_colwise_sum: "i < num_cols A \<Longrightarrow> colwise_sum A ! i = (\<Sum>k<num_rows A. el A k i)"
  by (simp add: colwise_sum_def nth_mk_vector sum_list_upt)

lemma el_ops:
  "i < r \<Longrightarrow> j < c \<Longrightarrow> el (Identity r c) i j = (if i = j then 1 else 0)"
  "i < num_rows A \<Longrightarrow> j < num_cols A \<Longrightarrow> el (mat_scale A x) i j = el A i j * x"
  "i < num_rows A \<Longrightarrow> j < num_cols A \<Longrightarrow> el (scale_mat x A) i j = x * el A i j"
  "i < num_rows A \<Longrightarrow> j < num_cols A \<Longrightarrow> el (mat_add A B) i j = el A i j + el B i j"
  "i < num_rows A \<Longrightarrow> j < num_cols A \<Longrightarrow> el (mat_sub A B) i j = el A i j - el B i j"
  "i < num_rows A \<Longrightarrow> j < num_cols B \<Longrightarrow> el (mat_mul A B) i j = (\<Sum>k<num_cols A. el A i k * el B k j)"
  "i < num_cols A \<Longrightarrow> j < num_rows A \<Longrightarrow> el (adjoint A) i j = el A j i"
  "i < length v \<Longrightarrow> j < length v \<Longrightarrow> el (asDiagonal v) i j = (if i = j then v ! i else 0)"
  "i < num_rows A \<Longrightarrow> j < num_cols A \<Longrightarrow> el (cwiseProduct A B) i j = el A i j * el B i j"
  by (simp_all add: Identity_def mat_scale_def scale_mat_def mat_add_def mat_sub_def mat_mul_def
      adjoint_def asDiagonal_def cwiseProduct_def el_mk_matrix sum_list_upt)




subsection \<open>What update() leaves behind\<close>

text \<open>
  The factorization is one long chain of local bindings. A field of its result is read by
  moving the selector under the bindings, so that only the bindings the field depends on
  are unfolded.
\<close>

lemma sel_Let:
  "m_V (Let a f) = Let a (\<lambda>x. m_V (f x))"
  "m_t (Let a f) = Let a (\<lambda>x. m_t (f x))"
  by (simp_all add: Let_def)

lemma update_chol_frame:
  assumes "update_chol alg s = Inr s'"
  shows "\<exists>A B C D E F G. s' = s\<lparr>m_chol_uu := A, m_V := B, m_t := C, m_chol_utr := D,
            m_r := E, m_be := F, m_L := G\<rparr>"
  using assms
  apply (cases "lik_sigma s")
   apply (simp only: update_chol_def bind_err_def sum.case)
   apply simp
  apply (simp only: update_chol_def bind_err_def sum.case sum.inject Let_def)
  apply (erule subst)
  apply (intro exI)
  apply (rule refl)
  done

lemma update_chol_sigma:
  assumes "update_chol alg s = Inr s'"
  shows "\<exists>sigma. lik_sigma s = Inr sigma"
proof (cases "lik_sigma s")
  case (Inl e)
  then have "update_chol alg s = Inl e"
    by (simp only: update_chol_def bind_err_def sum.case)
  with assms show ?thesis by simp
next
  case (Inr sigma)
  then show ?thesis by blast
qed

lemma update_chol_total: "lik_sigma s = Inr sigma \<Longrightarrow> \<exists>s'. update_chol alg s = Inr s'"
  by (simp only: update_chol_def bind_err_def sum.case) blast

lemma update_chol_shape:
  assumes "update_chol alg s = Inr s'"
  shows "num_rows (m_V s') = num_cols (m_kuu s) \<and> num_cols (m_V s') = num_cols (m_ktru s) \<and>
         length (m_t s') = length (m_ktrtr_diag s)"
  using assms
  apply (cases "lik_sigma s")
   apply (simp only: update_chol_def bind_err_def sum.case)
   apply simp
  apply (simp only: update_chol_def bind_err_def sum.case sum.inject)
  apply (erule subst)
  apply (simp only: sel_Let)
  apply (simp add: Let_def)
  done

lemma colwise_sum_sq:
  assumes "i < num_cols A"
  shows "colwise_sum (cwiseProduct A A) ! i = (\<Sum>k<num_rows A. el A k i * el A k i)"
proof -
  have "(\<Sum>k<num_rows A. el (cwiseProduct A A) k i) = (\<Sum>k<num_rows A. el A k i * el A k i)"
    using assms by (intro sum.cong) (simp_all add: el_ops)
  then show ?thesis using assms by (simp add: nth_colwise_sum)
qed

lemma update_chol_t:
  assumes "update_chol alg s = Inr s'" and "lik_sigma s = Inr sigma"
    and "num_cols (m_ktru s) = length (m_ktrtr_diag s)" and "i < length (m_ktrtr_diag s)"
  shows "m_t s' ! i =
           1 / (m_ktrtr_diag s ! i * exp (m_log_scale s * 2) + sigma * sigma
                - (\<Sum>k<num_rows (m_V s'). el (m_V s') k i * el (m_V s') k i))"
  using assms
  apply (simp only: update_chol_def bind_err_def sum.case sum.inject)
  apply (erule subst)
  apply (simp only: sel_Let)
  apply (simp add: Let_def nth_ops colwise_sum_sq sq_def)
  done

lemma update_alpha_frame: "\<exists>A. update_alpha alg s = s\<lparr>m_alpha := A\<rparr>"
  unfolding update_alpha_def Let_def by (intro exI) (rule refl)

lemma update_deriv_frame:
  "\<exists>A B C D. update_deriv alg s = s\<lparr>m_al := A, m_B := B, m_w := C, m_Rvdd := D,
      update_deriv_calls := Suc (update_deriv_calls s)\<rparr>"
  unfolding update_deriv_def Let_def by (intro exI) (rule refl)

lemma update_deriv_al_length: "length (m_al (update_deriv alg s)) = length (mean_vector s)"
  by (simp add: update_deriv_def Let_def)

lemma update_deriv_cong:
  assumes "m_ktru a = m_ktru b" "m_chol_utr a = m_chol_utr b" "m_chol_uu a = m_chol_uu b"
    "m_t a = m_t b" "m_be a = m_be b" "labels a = labels b" "mean_vector a = mean_vector b"
    "m_V a = m_V b" "m_kuu a = m_kuu b" "m_log_scale a = m_log_scale b"
  shows "m_al (update_deriv alg a) = m_al (update_deriv alg b) \<and>
         m_B (update_deriv alg a) = m_B (update_deriv alg b) \<and>
         m_w (update_deriv alg a) = m_w (update_deriv alg b) \<and>
         m_Rvdd (update_deriv alg a) = m_Rvdd (update_deriv alg b)"
  by (simp add: update_deriv_def Let_def assms)

lemma check_members_calls: "check_members (s\<lparr>update_calls := n\<rparr>) = check_members s"
  by (simp add: check_members_def)

lemma update_Inr:
  assumes "update alg s = Inr s'"
  shows "check_members s = Inr () \<and>
         (\<exists>s2. update_chol alg (update_train_kernel (s\<lparr>update_calls := Suc (update_calls s)\<rparr>)) = Inr s2 \<and>
               s' = update_parameter_hash ((update_alpha alg s2)\<lparr>m_gradient_update := False\<rparr>))"
  using assms
  by (auto simp: update_def Inference_update_def bind_err_def check_members_calls split: sum.splits)

lemma update_facts:
  assumes "update alg s = Inr s'"
  shows "m_hash s' = param_hash s" "param_hash s' = param_hash s" "\<not> m_gradient_update s'"
    "m_kuu s' = kernel_uu s" "m_ktru s' = kernel_tru s" "m_ktrtr_diag s' = kernel_trtr_diag s"
    "kernel_uu s' = kernel_uu s" "kernel_tru s' = kernel_tru s" "kernel_trtr_diag s' = kernel_trtr_diag s"
    "labels s' = labels s" "mean_vector s' = mean_vector s" "lik_sigma s' = lik_sigma s"
    "m_log_scale s' = m_log_scale s" "m_log_ind_noise s' = m_log_ind_noise s"
    "update_calls s' = Suc (update_calls s)" "update_deriv_calls s' = update_deriv_calls s"
    "m_al s' = m_al s" "m_B s' = m_B s" "m_w s' = m_w s" "m_Rvdd s' = m_Rvdd s"
    "num_rows (m_V s') = num_cols (kernel_uu s)" "num_cols (m_V s') = num_cols (kernel_tru s)"
    "length (m_t s') = length (kernel_trtr_diag s)"
proof -
  from update_Inr [OF assms] obtain s2 where
    c: "update_chol alg (update_train_kernel (s\<lparr>update_calls := Suc (update_calls s)\<rparr>)) = Inr s2" and
    s': "s' = update_parameter_hash ((update_alpha alg s2)\<lparr>m_gradient_update := False\<rparr>)"
    by blast
  from update_chol_frame [OF c] obtain A B C D E F G where
    s2: "s2 = (update_train_kernel (s\<lparr>update_calls := Suc (update_calls s)\<rparr>))
           \<lparr>m_chol_uu := A, m_V := B, m_t := C, m_chol_utr := D, m_r := E, m_be := F, m_L := G\<rparr>"
    by blast
  obtain H where a: "update_alpha alg s2 = s2\<lparr>m_alpha := H\<rparr>"
    using update_alpha_frame by blast
  have sh: "num_rows (m_V s2) = num_cols (kernel_uu s)" "num_cols (m_V s2) = num_cols (kernel_tru s)"
    "length (m_t s2) = length (kernel_trtr_diag s)"
    using update_chol_shape [OF c] by (simp_all add: update_train_kernel_def)
  have "s' = s2\<lparr>m_alpha := H, m_gradient_update := False, m_hash := param_hash s2\<rparr>"
    by (simp add: s' a update_parameter_hash_def)
  then have eq: "s' = s\<lparr>update_calls := Suc (update_calls s), m_kuu := kernel_uu s,
      m_ktru := kernel_tru s, m_ktrtr_diag := kernel_trtr_diag s, m_chol_uu := A, m_V := B,
      m_t := C, m_chol_utr := D, m_r := E, m_be := F, m_L := G, m_alpha := H,
      m_gradient_update := False, m_hash := param_hash s\<rparr>"
    by (simp add: s2 update_train_kernel_def)
  have v: "m_V s2 = B" "m_t s2 = C"
    by (simp_all add: s2)
  show "m_hash s' = param_hash s" "param_hash s' = param_hash s" "\<not> m_gradient_update s'"
    "m_kuu s' = kernel_uu s" "m_ktru s' = kernel_tru s" "m_ktrtr_diag s' = kernel_trtr_diag s"
    "kernel_uu s' = kernel_uu s" "kernel_tru s' = kernel_tru s" "kernel_trtr_diag s' = kernel_trtr_diag s"
    "labels s' = labels s" "mean_vector s' = mean_vector s" "lik_sigma s' = lik_sigma s"
    "m_log_scale s' = m_log_scale s" "m_log_ind_noise s' = m_log_ind_noise s"
    "update_calls s' = Suc (update_calls s)" "update_deriv_calls s' = update_deriv_calls s"
    "m_al s' = m_al s" "m_B s' = m_B s" "m_w s' = m_w s" "m_Rvdd s' = m_Rvdd s"
    by (simp_all add: eq)
  show "num_rows (m_V s') = num_cols (kernel_uu s)" "num_cols (m_V s') = num_cols (kernel_tru s)"
    "length (m_t s') = length (kernel_trtr_diag s)"
    using sh by (simp_all add: v eq)
qed

lemma update_fresh: "update alg s = Inr s' \<Longrightarrow> \<not> parameter_hash_changed s'"
  by (simp add: parameter_hash_changed_def update_facts)


subsection \<open>What compute_gradient() leaves behind\<close>

lemma compute_gradient_Inr:
  assumes "compute_gradient alg s = Inr s'"
  shows "\<exists>u. (if parameter_hash_changed s then update alg s else Inr s) = Inr u \<and>
             s' = (if m_gradient_update u then u
                   else update_parameter_hash ((update_deriv alg u)\<lparr>m_gradient_update := True\<rparr>))"
  using assms
  by (auto simp: compute_gradient_def Inference_compute_gradient_def bind_err_def
      split: sum.splits if_splits)

lemma stale_or_fresh:
  assumes "(if parameter_hash_changed s then update alg s else Inr s) = Inr u"
  shows "\<not> parameter_hash_changed u"
  using assms by (auto simp: update_fresh split: if_splits)

lemma deriv_step_fields:
  fixes alg u
  defines "s' \<equiv> update_parameter_hash ((update_deriv alg u)\<lparr>m_gradient_update := True\<rparr>)"
  shows "m_gradient_update s'" "m_hash s' = param_hash u" "param_hash s' = param_hash u"
    "m_ktru s' = m_ktru u" "m_chol_utr s' = m_chol_utr u" "m_chol_uu s' = m_chol_uu u"
    "m_t s' = m_t u" "m_be s' = m_be u" "labels s' = labels u" "mean_vector s' = mean_vector u"
    "m_V s' = m_V u" "m_kuu s' = m_kuu u" "m_log_scale s' = m_log_scale u"
    "m_ktrtr_diag s' = m_ktrtr_diag u" "m_alpha s' = m_alpha u" "m_mu s' = m_mu u"
    "m_Sigma s' = m_Sigma u" "lik_sigma s' = lik_sigma u" "model_name s' = model_name u"
    "kernel_uu s' = kernel_uu u" "kernel_tru s' = kernel_tru u"
    "kernel_trtr_diag s' = kernel_trtr_diag u" "update_calls s' = update_calls u"
    "update_deriv_calls s' = Suc (update_deriv_calls u)"
    "m_al s' = m_al (update_deriv alg u)" "m_B s' = m_B (update_deriv alg u)"
    "m_w s' = m_w (update_deriv alg u)" "m_Rvdd s' = m_Rvdd (update_deriv alg u)"
proof -
  obtain A B C D where d: "update_deriv alg u = u\<lparr>m_al := A, m_B := B, m_w := C, m_Rvdd := D,
      update_deriv_calls := Suc (update_deriv_calls u)\<rparr>"
    using update_deriv_frame by blast
  have eq: "s' = u\<lparr>m_al := A, m_B := B, m_w := C, m_Rvdd := D,
      update_deriv_calls := Suc (update_deriv_calls u), m_gradient_update := True,
      m_hash := param_hash u\<rparr>"
    by (simp add: s'_def d update_parameter_hash_def)
  show "m_gradient_update s'" "m_hash s' = param_hash u" "param_hash s' = param_hash u"
    "m_ktru s' = m_ktru u" "m_chol_utr s' = m_chol_utr u" "m_chol_uu s' = m_chol_uu u"
    "m_t s' = m_t u" "m_be s' = m_be u" "labels s' = labels u" "mean_vector s' = mean_vector u"
    "m_V s' = m_V u" "m_kuu s' = m_kuu u" "m_log_scale s' = m_log_scale u"
    "m_ktrtr_diag s' = m_ktrtr_diag u" "m_alpha s' = m_alpha u" "m_mu s' = m_mu u"
    "m_Sigma s' = m_Sigma u" "lik_sigma s' = lik_sigma u" "model_name s' = model_name u"
    "kernel_uu s' = kernel_uu u" "kernel_tru s' = kernel_tru u"
    "kernel_trtr_diag s' = kernel_trtr_diag u" "update_calls s' = update_calls u"
    "update_deriv_calls s' = Suc (update_deriv_calls u)"
    by (simp_all add: eq)
  show "m_al s' = m_al (update_deriv alg u)" "m_B s' = m_B (update_deriv alg u)"
    "m_w s' = m_w (update_deriv alg u)" "m_Rvdd s' = m_Rvdd (update_deriv alg u)"
    by (simp_all add: s'_def update_parameter_hash_def)
qed

lemma deriv_step_current:
  "deriv_current alg (update_parameter_hash ((update_deriv alg u)\<lparr>m_gradient_update := True\<rparr>))"
  unfolding deriv_current_def
  using update_deriv_cong [of "update_parameter_hash ((update_deriv alg u)\<lparr>m_gradient_update := True\<rparr>)" u alg]
  by (simp add: deriv_step_fields)

lemma compute_gradient_post:
  assumes "compute_gradient alg s = Inr s'"
  shows "m_gradient_update s'" "\<not> parameter_hash_changed s'"
proof -
  from compute_gradient_Inr [OF assms] obtain u where
    u: "(if parameter_hash_changed s then update alg s else Inr s) = Inr u" and
    s': "s' = (if m_gradient_update u then u
               else update_parameter_hash ((update_deriv alg u)\<lparr>m_gradient_update := True\<rparr>))"
    by blast
  show "m_gradient_update s'"
    by (simp add: s' deriv_step_fields)
  show "\<not> parameter_hash_changed s'"
    using stale_or_fresh [OF u]
    by (simp add: s' parameter_hash_changed_def deriv_step_fields)
qed

lemma compute_gradient_current:
  assumes "deriv_inv alg s" and "compute_gradient alg s = Inr s'"
  shows "deriv_current alg s'"
proof -
  from compute_gradient_Inr [OF assms(2)] obtain u where
    u: "(if parameter_hash_changed s then update alg s else Inr s) = Inr u" and
    s': "s' = (if m_gradient_update u then u
               else update_parameter_hash ((update_deriv alg u)\<lparr>m_gradient_update := True\<rparr>))"
    by blast
  show ?thesis
  proof (cases "m_gradient_update u")
    case True
    have "\<not> parameter_hash_changed s"
    proof
      assume "parameter_hash_changed s"
      with u have "update alg s = Inr u" by simp
      then have "\<not> m_gradient_update u" by (rule update_facts)
      with True show False by simp
    qed
    with u have "u = s" by simp
    with True s' assms(1) \<open>\<not> parameter_hash_changed s\<close> show ?thesis
      by (simp add: deriv_inv_def)
  next
    case False
    with s' show ?thesis by (simp add: deriv_step_current)
  qed
qed

subsection \<open>The shape invariant is kept\<close>

lemma update_shapes_ok:
  assumes "shapes_ok s" and "update alg s = Inr u"
  shows "shapes_ok u"
  using assms(1) update_fresh [OF assms(2)]
  by (simp add: shapes_ok_def update_facts [OF assms(2)])

lemma stale_or_fresh_shapes:
  assumes "shapes_ok s" and "(if parameter_hash_changed s then update alg s else Inr s) = Inr u"
  shows "shapes_ok u"
  using assms by (auto simp: update_shapes_ok split: if_splits)

lemma compute_gradient_shapes:
  assumes "shapes_ok s" and "compute_gradient alg s = Inr s'"
  shows "shapes_ok s'"
    and "num_rows (m_kuu s') = num_rows (m_V s')" and "num_cols (m_kuu s') = num_rows (m_V s')"
    and "num_cols (m_ktru s') = length (kernel_trtr_diag s)"
    and "length (m_ktrtr_diag s') = length (kernel_trtr_diag s)"
    and "num_cols (m_V s') = length (kernel_trtr_diag s)"
    and "length (m_al s') = length (kernel_trtr_diag s)"
proof -
  from compute_gradient_Inr [OF assms(2)] obtain u where
    u: "(if parameter_hash_changed s then update alg s else Inr s) = Inr u" and
    s': "s' = (if m_gradient_update u then u
               else update_parameter_hash ((update_deriv alg u)\<lparr>m_gradient_update := True\<rparr>))"
    by blast
  have su: "shapes_ok u" and fu: "\<not> parameter_hash_changed u"
    using stale_or_fresh_shapes [OF assms(1) u] stale_or_fresh [OF u] by simp_all
  have ku: "kernel_trtr_diag u = kernel_trtr_diag s"
    using u by (auto simp: update_facts split: if_splits)
  have post: "m_gradient_update s'" "\<not> parameter_hash_changed s'"
    using compute_gradient_post [OF assms(2)] by simp_all
  have al: "length (m_al s') = length (kernel_trtr_diag u)"
    using su fu by (cases "m_gradient_update u")
      (simp_all add: s' shapes_ok_def deriv_step_fields update_deriv_al_length)
  have rest: "num_rows (m_kuu s') = num_rows (m_V s')" "num_cols (m_kuu s') = num_rows (m_V s')"
    "num_cols (m_ktru s') = length (kernel_trtr_diag u)"
    "length (m_ktrtr_diag s') = length (kernel_trtr_diag u)"
    "num_cols (m_V s') = length (kernel_trtr_diag u)"
    "kernel_uu s' = kernel_uu u" "kernel_tru s' = kernel_tru u"
    "kernel_trtr_diag s' = kernel_trtr_diag u" "mean_vector s' = mean_vector u"
    using su fu by (simp_all add: s' shapes_ok_def deriv_step_fields)
  show "shapes_ok s'"
    using su post al rest by (simp add: shapes_ok_def)
  show "num_rows (m_kuu s') = num_rows (m_V s')" "num_cols (m_kuu s') = num_rows (m_V s')"
    "num_cols (m_ktru s') = length (kernel_trtr_diag s)"
    "length (m_ktrtr_diag s') = length (kernel_trtr_diag s)"
    "num_cols (m_V s') = length (kernel_trtr_diag s)"
    "length (m_al s') = length (kernel_trtr_diag s)"
    using al rest ku by simp_all
qed

subsection \<open>Running the engine on the one-point problem\<close>

lemmas eigen_ops = assign_matrix_def assign_vector_def
  sq_def Identity_def Ones_def mat_scale_def scale_mat_def mat_add_def mat_sub_def mat_mul_def
  adjoint_def asDiagonal_def cwiseProduct_def colwise_sum_def mat_sum_def diagonal_def mat_vec_def
  vec_scale_def scale_vec_def vec_add_def vec_sub_def vec_cwiseProduct_def vec_cwiseQuotient_def
  vec_sum_def dot_def

lemma mat1_sel:
  "num_rows (mat1 a) = 1" "num_cols (mat1 a) = 1" "el (mat1 a) 0 0 = a" "matrix (mat1 a) = [a]"
  by (simp_all add: mat1_def el_def)

lemma mk_matrix_1: "mk_matrix (Suc 0) (Suc 0) f = mat1 (f 0 0)"
  by (simp add: mk_matrix_def mat1_def)

lemma mk_vector_1: "mk_vector (Suc 0) f = [f 0]"
  by (simp add: mk_vector_def)

lemma col_vector_1: "col_vector [a] = mat1 a"
  by (simp add: col_vector_def mat1_def)

lemmas one_point = mat1_sel mk_matrix_1 mk_vector_1 col_vector_1

lemma ref_matrixU_1: "ref_matrixU (mat1 a) = mat1 (sqrt a)"
  by (simp add: ref_matrixU_def one_point)

lemma ref_upper_solve_1: "ref_upper_solve (mat1 u) (mat1 b) = mat1 (b / u)"
  by (simp add: ref_upper_solve_def one_point)

lemma ref_upper_adjoint_solve_1: "ref_upper_adjoint_solve (mat1 u) (mat1 b) = mat1 (b / u)"
  by (simp add: ref_upper_adjoint_solve_def one_point)

lemma ref_alg_sel:
  "llt_matrixU ref_alg = ref_matrixU"
  "llt_solve ref_alg = (\<lambda>A B. ref_upper_solve (ref_matrixU A) (ref_upper_adjoint_solve (ref_matrixU A) B))"
  "upper_solve ref_alg = ref_upper_solve"
  "upper_adjoint_solve ref_alg = ref_upper_adjoint_solve"
  by (simp_all add: ref_alg_def)

lemmas ref_one_point = ref_alg_sel ref_matrixU_1 ref_upper_solve_1 ref_upper_adjoint_solve_1

lemma sqrt_25_16: "sqrt (25 / 16) = 5 / 4"
  by (rule real_sqrt_unique) (simp_all add: power2_eq_square)

lemma Inference_update_demo0:
  "Inference_update (demo0\<lparr>update_calls := Suc (update_calls demo0)\<rparr>) = Inr demo_kernel"
  by (simp add: Inference_update_def check_members_def require_def bind_err_def
      update_train_kernel_def demo0_def demo_kernel_def)

lemma update_chol_demo: "update_chol ref_alg demo_kernel = Inr demo_chol"
  apply (subst update_chol_def)
  apply (simp only: Let_def)
  apply (simp add: demo_kernel_def demo0_def bind_err_def eigen_ops one_point ref_one_point sqrt_25_16)
  apply (simp add: demo_chol_def demo_kernel_def demo0_def)
  done

lemma update_alpha_demo: "update_alpha ref_alg demo_chol = demo_chol\<lparr>m_alpha := [12 / 25]\<rparr>"
  apply (subst update_alpha_def)
  apply (simp only: Let_def)
  apply (simp add: demo_chol_def demo_kernel_def demo0_def eigen_ops one_point ref_one_point)
  done

lemma update_demo0: "update ref_alg demo0 = Inr demo1"
  by (simp add: update_def Inference_update_demo0 update_chol_demo update_alpha_demo bind_err_def
      update_parameter_hash_def demo1_def)
     (simp add: demo_chol_def demo_kernel_def demo0_def)

lemma update_deriv_demo: "update_deriv ref_alg demo1 = demo2\<lparr>m_gradient_update := False\<rparr>"
  apply (subst update_deriv_def)
  apply (simp only: Let_def)
  apply (simp add: demo1_def demo_chol_def demo_kernel_def demo0_def eigen_ops one_point ref_one_point)
  apply (simp add: demo2_def demo1_def demo_chol_def demo_kernel_def demo0_def)
  done

lemma demo_flags:
  "parameter_hash_changed demo0" "\<not> parameter_hash_changed demo1" "\<not> m_gradient_update demo1"
  "\<not> parameter_hash_changed demo2" "m_gradient_update demo2"
  by (simp_all add: parameter_hash_changed_def demo2_def demo1_def demo_chol_def demo_kernel_def demo0_def)

lemma compute_gradient_demo1: "compute_gradient ref_alg demo1 = Inr demo2"
  by (simp add: compute_gradient_def Inference_compute_gradient_def demo_flags bind_err_def
      update_deriv_demo update_parameter_hash_def)
     (simp add: demo2_def demo1_def demo_chol_def demo_kernel_def demo0_def)

lemma compute_gradient_demo0: "compute_gradient ref_alg demo0 = Inr demo2"
  by (simp add: compute_gradient_def Inference_compute_gradient_def demo_flags bind_err_def
      update_demo0 update_deriv_demo update_parameter_hash_def)
     (simp add: demo2_def demo1_def demo_chol_def demo_kernel_def demo0_def)

lemma shapes_ok_demo: "shapes_ok demo0" "shapes_ok demo1" "shapes_ok demo2"
  by (simp_all add: shapes_ok_def demo_flags)
     (simp_all add: demo2_def demo1_def demo_chol_def demo_kernel_def demo0_def mat1_sel)

subsection \<open>Sums\<close>

lemma map_as_index: "map f xs = map (\<lambda>i. f (xs ! i)) [0..<length xs]"
  by (rule nth_equalityI) simp_all

lemma sum_list_map_nth: "sum_list (map f xs) = (\<Sum>i<length xs. f (xs ! i))"
  by (subst map_as_index) (rule sum_list_upt)

lemma sum_log_diagonal:
  "vec_sum (map ln (diagonal A)) = (\<Sum>i<min (num_rows A) (num_cols A). ln (el A i i))"
  by (simp add: vec_sum_def diagonal_def mk_vector_def o_def sum_list_upt)

lemma dot_self: "dot x x = (\<Sum>i<length x. x ! i * x ! i)"
  by (simp add: dot_def sum_list_upt)

lemma sum_ones_product: "vec_sum (vec_cwiseProduct (Ones (length x)) x) = (\<Sum>i<length x. x ! i)"
proof -
  have "(\<Sum>i<length x. Ones (length x) ! i * x ! i) = (\<Sum>i<length x. x ! i)"
    by (intro sum.cong) (simp_all add: nth_ops)
  then show ?thesis
    by (simp add: vec_sum_def vec_cwiseProduct_def mk_vector_def sum_list_upt)
qed

lemma mat_sum_squares:
  "mat_sum (cwiseProduct A A) = (\<Sum>j<num_cols A. \<Sum>i<num_rows A. (el A i j)\<^sup>2)"
proof -
  have "(\<Sum>j<num_cols A. \<Sum>i<num_rows A. el (cwiseProduct A A) i j) =
        (\<Sum>j<num_cols A. \<Sum>i<num_rows A. (el A i j)\<^sup>2)"
    by (intro sum.cong) (simp_all add: el_ops power2_eq_square)
  then show ?thesis
    by (simp add: mat_sum_def sum_list_upt)
qed

subsection \<open>The marginal likelihood accessor\<close>

lemma nlml_Inr:
  assumes "get_negative_log_marginal_likelihood alg s = Inr (v, s1)"
  shows "(if parameter_hash_changed s then update alg s else Inr s) = Inr s1"
  using assms
  by (auto simp: get_negative_log_marginal_likelihood_def bind_err_def Let_def
      split: sum.splits if_splits)

lemma nlml_after:
  assumes "(if parameter_hash_changed s then update alg s else Inr s) = Inr u"
  shows "get_negative_log_marginal_likelihood alg s = get_negative_log_marginal_likelihood alg u"
  using assms stale_or_fresh [OF assms]
  by (simp add: get_negative_log_marginal_likelihood_def bind_err_def)


lemmas demo_defs = demo2_def demo1_def demo_chol_def demo_kernel_def demo0_def

lemma nlml_demo0:
  "get_negative_log_marginal_likelihood ref_alg demo0 =
     Inr (ln (5 / 4) + (4 - 36 / 25 + ln (2 * pi)) / 2, demo1)"
  apply (simp add: get_negative_log_marginal_likelihood_def demo_flags update_demo0 bind_err_def)
  apply (simp add: Let_def demo_defs eigen_ops one_point)
  done

subsection \<open>The reciprocal in update_chol\<close>

lemma update_total:
  assumes "check_members s = Inr ()" and "lik_sigma s = Inr sigma"
  shows "\<exists>s'. update alg s = Inr s'"
proof -
  let ?k = "update_train_kernel (s\<lparr>update_calls := Suc (update_calls s)\<rparr>)"
  have "lik_sigma ?k = Inr sigma"
    using assms(2) by (simp add: update_train_kernel_def)
  then obtain s2 where "update_chol alg ?k = Inr s2"
    using update_chol_total by blast
  then show ?thesis
    using assms(1) by (simp add: update_def Inference_update_def bind_err_def check_members_calls)
qed

lemma update_chol_part:
  assumes "update alg s = Inr s'"
  shows "\<exists>s2. update_chol alg (update_train_kernel (s\<lparr>update_calls := Suc (update_calls s)\<rparr>)) = Inr s2 \<and>
              m_V s' = m_V s2 \<and> m_t s' = m_t s2"
proof -
  from update_Inr [OF assms] obtain s2 where
    c: "update_chol alg (update_train_kernel (s\<lparr>update_calls := Suc (update_calls s)\<rparr>)) = Inr s2" and
    s': "s' = update_parameter_hash ((update_alpha alg s2)\<lparr>m_gradient_update := False\<rparr>)"
    by blast
  obtain H where a: "update_alpha alg s2 = s2\<lparr>m_alpha := H\<rparr>"
    using update_alpha_frame by blast
  have "m_V s' = m_V s2" "m_t s' = m_t s2"
    by (simp_all add: s' a update_parameter_hash_def)
  with c show ?thesis by blast
qed

lemma update_t:
  assumes "update alg s = Inr s'" and "lik_sigma s = Inr sigma"
    and "num_cols (kernel_tru s) = length (kernel_trtr_diag s)" and "i < length (kernel_trtr_diag s)"
  shows "m_t s' ! i =
           1 / (kernel_trtr_diag s ! i * exp (m_log_scale s * 2) + sigma * sigma
                - (\<Sum>k<num_rows (m_V s'). el (m_V s') k i * el (m_V s') k i))"
proof -
  let ?k = "update_train_kernel (s\<lparr>update_calls := Suc (update_calls s)\<rparr>)"
  from update_chol_part [OF assms(1)] obtain s2 where
    c: "update_chol alg ?k = Inr s2" and v: "m_V s' = m_V s2" "m_t s' = m_t s2"
    by blast
  have k: "lik_sigma ?k = Inr sigma" "num_cols (m_ktru ?k) = length (m_ktrtr_diag ?k)"
    "i < length (m_ktrtr_diag ?k)" "m_ktrtr_diag ?k = kernel_trtr_diag s" "m_log_scale ?k = m_log_scale s"
    using assms(2-4) by (simp_all add: update_train_kernel_def)
  show ?thesis
    using update_chol_t [OF c k(1) k(2) k(3)] by (simp add: v k)
qed

lemma degenerate_chol:
  assumes "update_chol ref_alg
             (update_train_kernel (demo_degenerate\<lparr>update_calls := Suc (update_calls demo_degenerate)\<rparr>)) = Inr s2"
  shows "m_V s2 = mat1 2 \<and> m_t s2 = [- 1 / 2]"
proof -
  let ?k = "update_train_kernel (demo_degenerate\<lparr>update_calls := Suc (update_calls demo_degenerate)\<rparr>)"
  have k: "lik_sigma ?k = Inr 1" "m_kuu ?k = mat1 3" "m_ktru ?k = mat1 4" "m_ktrtr_diag ?k = [1]"
    "m_log_scale ?k = 0" "m_log_ind_noise ?k = 0"
    by (simp_all add: update_train_kernel_def demo_degenerate_def demo0_def)
  show ?thesis
    using assms
    apply (simp only: update_chol_def bind_err_def k sum.case sum.inject)
    apply (erule subst)
    apply (simp only: sel_Let)
    apply (simp only: Let_def)
    apply (simp add: eigen_ops one_point ref_one_point)
    done
qed

subsection \<open>The posterior accessors\<close>

lemma posterior_mean_entry:
  assumes "i < num_cols K"
  shows "mat_vec (scale_mat c (adjoint K)) a ! i = c * (\<Sum>k<num_rows K. el K k i * a ! k)"
proof -
  have "(\<Sum>k<num_rows K. el (scale_mat c (adjoint K)) i k * a ! k) =
        (\<Sum>k<num_rows K. c * (el K k i * a ! k))"
    using assms by (intro sum.cong) (simp_all add: el_ops)
  then show ?thesis
    using assms by (simp add: nth_ops sum_distrib_left)
qed

lemma posterior_mean_Inr:
  assumes "compute_gradient alg s = Inr s1"
  shows "get_posterior_mean alg s =
           Inr (assign_vector (length (m_al s1))
                  (mat_vec (scale_mat (exp (m_log_scale s1 * 2)) (adjoint (m_ktru s1))) (m_alpha s1)),
                s1\<lparr>m_mu := assign_vector (length (m_al s1))
                  (mat_vec (scale_mat (exp (m_log_scale s1 * 2)) (adjoint (m_ktru s1))) (m_alpha s1))\<rparr>)"
  using assms by (simp add: get_posterior_mean_def bind_err_def Let_def)

lemma posterior_covariance_entry:
  assumes "num_cols V = n" and "length d = n" and "i < n" and "j < n"
  shows "el (assign_matrix n n
               (mat_add (assign_matrix n n (mat_mul (mat_mul (adjoint V) X) (adjoint (mat_mul (adjoint V) X))))
                  (asDiagonal (vec_sub (vec_scale d c) (colwise_sum (cwiseProduct V V)))))) i j =
         (\<Sum>k<num_cols X. el (mat_mul (adjoint V) X) i k * el (mat_mul (adjoint V) X) j k) +
         (if i = j then d ! i * c - (\<Sum>k<num_rows V. el V k i * el V k i) else 0)"
proof -
  let ?P = "mat_mul (adjoint V) X"
  have rows: "num_rows ?P = n" "num_cols ?P = num_cols X"
    using assms(1) by simp_all
  have "(\<Sum>k<num_cols X. el ?P i k * el (adjoint ?P) k j) = (\<Sum>k<num_cols X. el ?P i k * el ?P j k)"
    using assms(4) rows by (intro sum.cong) (simp_all add: el_ops)
  then have prod: "el (mat_mul ?P (adjoint ?P)) i j = (\<Sum>k<num_cols X. el ?P i k * el ?P j k)"
    using assms(3,4) rows by (simp add: el_ops)
  have diag: "vec_sub (vec_scale d c) (colwise_sum (cwiseProduct V V)) ! i =
              d ! i * c - (\<Sum>k<num_rows V. el V k i * el V k i)"
    using assms(1-3) by (simp add: nth_ops colwise_sum_sq)
  show ?thesis
    using assms rows prod diag by (auto simp: el_assign_matrix el_ops)
qed

lemma posterior_covariance_Inr:
  assumes "get_posterior_covariance alg s = Inr (S, s')"
  shows "\<exists>s1. compute_gradient alg s = Inr s1 \<and> s' = s1\<lparr>m_Sigma := S\<rparr> \<and>
           S = assign_matrix (length (m_ktrtr_diag s1)) (length (m_ktrtr_diag s1))
                 (mat_add
                    (assign_matrix (length (m_ktrtr_diag s1)) (length (m_ktrtr_diag s1))
                       (mat_mul
                          (mat_mul (adjoint (m_V s1))
                             (upper_solve alg (m_chol_utr s1)
                                (Identity (num_rows (m_kuu s1)) (num_cols (m_kuu s1)))))
                          (adjoint
                             (mat_mul (adjoint (m_V s1))
                                (upper_solve alg (m_chol_utr s1)
                                   (Identity (num_rows (m_kuu s1)) (num_cols (m_kuu s1))))))))
                    (asDiagonal
                       (vec_sub (vec_scale (m_ktrtr_diag s1) (exp (m_log_scale s1 * 2)))
                          (colwise_sum (cwiseProduct (m_V s1) (m_V s1))))))"
  using assms
  by (cases "compute_gradient alg s")
     (auto simp: get_posterior_covariance_def bind_err_def Let_def)

lemma posterior_covariance_demo1:
  "get_posterior_covariance ref_alg demo1 =
     Inr (mat1 (111 / 100), demo2\<lparr>m_Sigma := mat1 (111 / 100)\<rparr>)"
  apply (simp only: get_posterior_covariance_def compute_gradient_demo1 bind_err_def sum.case Let_def)
  apply (simp add: demo_defs eigen_ops one_point ref_one_point)
  done

lemma compute_gradient_demo_other: "compute_gradient ref_alg demo_other = Inr demo_other"
  by (simp add: compute_gradient_def Inference_compute_gradient_def bind_err_def
      parameter_hash_changed_def demo_other_def demo_defs)

lemma posterior_covariance_demo_other:
  "get_posterior_covariance ref_alg demo_other =
     Inr (mat1 (111 / 100), demo_other\<lparr>m_Sigma := mat1 (111 / 100)\<rparr>)"
  apply (simp only: get_posterior_covariance_def compute_gradient_demo_other bind_err_def sum.case Let_def)
  apply (simp add: demo_other_def demo_defs eigen_ops one_point ref_one_point)
  done

lemma shapes_ok_demo_other: "shapes_ok demo_other"
  by (simp add: shapes_ok_def parameter_hash_changed_def demo_other_def demo_defs mat1_sel)

subsection \<open>A second hyperparameter generation\<close>

lemma sqrt_25_9: "sqrt (25 / 9) = 5 / 3"
  by (rule real_sqrt_unique) (simp_all add: power2_eq_square)

lemmas stale_defs = demo4_def demo3_def stale_chol_def stale_kernel_def demo_stale_def

lemma Inference_update_stale:
  "Inference_update (demo_stale\<lparr>update_calls := Suc (update_calls demo_stale)\<rparr>) = Inr stale_kernel"
  by (simp add: Inference_update_def check_members_def require_def bind_err_def
      update_train_kernel_def stale_kernel_def demo_stale_def demo_defs)

lemma stale_kernel_fields:
  "lik_sigma stale_kernel = Inr (1 / 2)" "m_kuu stale_kernel = mat1 3"
  "m_ktru stale_kernel = mat1 (8 / 3)" "m_ktrtr_diag stale_kernel = [91 / 36]"
  "m_log_scale stale_kernel = 0" "m_log_ind_noise stale_kernel = 0"
  "labels stale_kernel = [2]" "mean_vector stale_kernel = [0]"
  by (simp_all add: stale_kernel_def demo_stale_def demo_defs)

lemma update_chol_stale: "update_chol ref_alg stale_kernel = Inr stale_chol"
  apply (subst update_chol_def)
  apply (simp only: Let_def)
  apply (simp add: stale_kernel_fields bind_err_def eigen_ops one_point ref_one_point sqrt_25_9)
  apply (simp add: stale_chol_def)
  done

lemma stale_chol_fields:
  "m_chol_uu stale_chol = mat1 2" "m_chol_utr stale_chol = mat1 (5 / 3)" "m_be stale_chol = [8 / 5]"
  by (simp_all add: stale_chol_def)

lemma update_alpha_stale: "update_alpha ref_alg stale_chol = stale_chol\<lparr>m_alpha := [12 / 25]\<rparr>"
  apply (subst update_alpha_def)
  apply (simp only: Let_def)
  apply (simp add: stale_chol_fields eigen_ops one_point ref_one_point)
  done

lemma update_stale: "update ref_alg demo_stale = Inr demo3"
  by (simp add: update_def Inference_update_stale update_chol_stale update_alpha_stale bind_err_def
      update_parameter_hash_def demo3_def)
     (simp add: stale_chol_def stale_kernel_def demo_stale_def)

lemma demo3_fields:
  "m_ktru demo3 = mat1 (8 / 3)" "m_chol_utr demo3 = mat1 (5 / 3)" "m_chol_uu demo3 = mat1 2"
  "m_t demo3 = [1]" "m_be demo3 = [8 / 5]" "labels demo3 = [2]" "mean_vector demo3 = [0]"
  "m_V demo3 = mat1 (4 / 3)" "m_kuu demo3 = mat1 3" "m_log_scale demo3 = 0"
  "update_deriv_calls demo3 = 1"
  by (simp_all add: demo3_def stale_chol_def stale_kernel_def demo_stale_def demo_defs)

lemma update_deriv_stale: "update_deriv ref_alg demo3 = demo4\<lparr>m_gradient_update := False\<rparr>"
  apply (subst update_deriv_def)
  apply (simp only: Let_def)
  apply (simp add: demo3_fields eigen_ops one_point ref_one_point)
  apply (simp add: demo4_def demo3_def)
  done

lemma stale_flags:
  "parameter_hash_changed demo_stale" "\<not> m_gradient_update demo3" "\<not> parameter_hash_changed demo3"
  by (simp_all add: parameter_hash_changed_def demo3_def stale_chol_def stale_kernel_def
      demo_stale_def demo_defs)

lemma compute_gradient_stale: "compute_gradient ref_alg demo_stale = Inr demo4"
  by (simp add: compute_gradient_def Inference_compute_gradient_def stale_flags bind_err_def
      update_stale update_deriv_stale update_parameter_hash_def)
     (simp add: demo4_def demo3_def stale_chol_def stale_kernel_def demo_stale_def)

lemma derivative_stale:
  "get_derivative_wrt_likelihood_model (''log_sigma'', ()) demo_stale = Inr [- 156 / 625]"
  by (simp add: get_derivative_wrt_likelihood_model_def require_def bind_err_def Let_def
      demo_stale_def demo_defs eigen_ops one_point)

lemma derivative_demo4:
  "get_derivative_wrt_likelihood_model (''log_sigma'', ()) demo4 = Inr [- 99 / 2500]"
  by (simp add: get_derivative_wrt_likelihood_model_def require_def bind_err_def Let_def
      stale_defs demo_defs eigen_ops one_point)

lemma derivative_cong:
  assumes "model_name a = model_name b" "lik_sigma a = lik_sigma b" "m_t a = m_t b"
    "m_al a = m_al b" "m_Rvdd a = m_Rvdd b"
  shows "get_derivative_wrt_likelihood_model p a = get_derivative_wrt_likelihood_model p b"
  by (simp add: get_derivative_wrt_likelihood_model_def assms)

lemma update_deriv_keeps:
  "model_name (update_deriv alg s) = model_name s" "lik_sigma (update_deriv alg s) = lik_sigma s"
  "m_t (update_deriv alg s) = m_t s"
proof -
  obtain A B C D where d: "update_deriv alg s = s\<lparr>m_al := A, m_B := B, m_w := C, m_Rvdd := D,
      update_deriv_calls := Suc (update_deriv_calls s)\<rparr>"
    using update_deriv_frame by blast
  show "model_name (update_deriv alg s) = model_name s" "lik_sigma (update_deriv alg s) = lik_sigma s"
    "m_t (update_deriv alg s) = m_t s"
    by (simp_all add: d)
qed

lemma posterior_covariance_total:
  assumes "compute_gradient alg s = Inr s1"
  shows "\<exists>S. get_posterior_covariance alg s = Inr (S, s1\<lparr>m_Sigma := S\<rparr>)"
  using assms by (simp add: get_posterior_covariance_def bind_err_def Let_def)

subsection \<open>The gradient flag is kept honest\<close>

text \<open>
  \<open>deriv_inv\<close> holds of every state whose hash has changed or whose flag is dirty, of
  every state \<open>update()\<close> returns, and every member that changes the state keeps it.
\<close>

lemma deriv_inv_stale:
  "parameter_hash_changed s \<or> \<not> m_gradient_update s \<Longrightarrow> deriv_inv alg s"
  by (auto simp: deriv_inv_def)

lemma deriv_inv_update: "update alg s = Inr s' \<Longrightarrow> deriv_inv alg s'"
  by (simp add: deriv_inv_def update_facts)

lemma deriv_inv_compute_gradient:
  "deriv_inv alg s \<Longrightarrow> compute_gradient alg s = Inr s' \<Longrightarrow> deriv_inv alg s'"
  by (simp add: deriv_inv_def compute_gradient_current)

lemma deriv_inv_nlml:
  assumes "deriv_inv alg s" and "get_negative_log_marginal_likelihood alg s = Inr (v, s')"
  shows "deriv_inv alg s'"
  using nlml_Inr [OF assms(2)] assms(1)
  by (auto simp: deriv_inv_update split: if_splits)

lemma deriv_inv_output:
  assumes "deriv_inv alg s"
  shows "deriv_inv alg (s\<lparr>m_mu := mu\<rparr>)" "deriv_inv alg (s\<lparr>m_Sigma := S\<rparr>)"
  using assms update_deriv_cong [of "s\<lparr>m_mu := mu\<rparr>" s alg]
    update_deriv_cong [of "s\<lparr>m_Sigma := S\<rparr>" s alg]
  by (simp_all add: deriv_inv_def deriv_current_def parameter_hash_changed_def)

lemma deriv_inv_posterior_mean:
  assumes "deriv_inv alg s" and "get_posterior_mean alg s = Inr (mu, s')"
  shows "deriv_inv alg s'"
proof -
  obtain s1 where c: "compute_gradient alg s = Inr s1"
    using assms(2) by (cases "compute_gradient alg s") (simp_all add: get_posterior_mean_def bind_err_def)
  have "s' = s1\<lparr>m_mu := mu\<rparr>"
    using assms(2) posterior_mean_Inr [OF c] by auto
  then show ?thesis
    using deriv_inv_compute_gradient [OF assms(1) c] by (simp add: deriv_inv_output)
qed

lemma deriv_inv_posterior_covariance:
  assumes "deriv_inv alg s" and "get_posterior_covariance alg s = Inr (S, s')"
  shows "deriv_inv alg s'"
proof -
  from posterior_covariance_Inr [OF assms(2)] obtain s1 where
    c: "compute_gradient alg s = Inr s1" and s': "s' = s1\<lparr>m_Sigma := S\<rparr>"
    by blast
  show ?thesis
    using deriv_inv_compute_gradient [OF assms(1) c] by (simp add: s' deriv_inv_output)
qed

lemma gradient_Inr:
  assumes "compute_gradient alg s = Inr s1"
  shows "gradient_wrt_likelihood_model alg p s =
           bind_err (get_derivative_wrt_likelihood_model p s1) (\<lambda>g. Inr (g, s1))"
  using assms by (simp add: gradient_wrt_likelihood_model_def bind_err_def)

lemma deriv_inv_gradient:
  assumes "deriv_inv alg s" and "gradient_wrt_likelihood_model alg p s = Inr (g, s')"
  shows "deriv_inv alg s'"
proof -
  obtain s1 where c: "compute_gradient alg s = Inr s1"
    using assms(2)
    by (cases "compute_gradient alg s") (simp_all add: gradient_wrt_likelihood_model_def bind_err_def)
  have "s' = s1"
    using assms(2) gradient_Inr [OF c, of p]
    by (cases "get_derivative_wrt_likelihood_model p s1") (simp_all add: bind_err_def)
  then show ?thesis
    using deriv_inv_compute_gradient [OF assms(1) c] by simp
qed

lemma compute_gradient_calls:
  assumes "compute_gradient alg s = Inr s1"
  shows "parameter_hash_changed s \<Longrightarrow> update_calls s1 = Suc (update_calls s)"
    "parameter_hash_changed s \<or> \<not> m_gradient_update s \<Longrightarrow>
       update_deriv_calls s1 = Suc (update_deriv_calls s)"
proof -
  from compute_gradient_Inr [OF assms] obtain u where
    u: "(if parameter_hash_changed s then update alg s else Inr s) = Inr u" and
    s1: "s1 = (if m_gradient_update u then u
               else update_parameter_hash ((update_deriv alg u)\<lparr>m_gradient_update := True\<rparr>))"
    by blast
  show "update_calls s1 = Suc (update_calls s)" if "parameter_hash_changed s"
  proof -
    from that u have up: "update alg s = Inr u" by simp
    then have "\<not> m_gradient_update u" by (rule update_facts)
    then show ?thesis
      by (simp add: s1 deriv_step_fields update_facts(15) [OF up])
  qed
  show "update_deriv_calls s1 = Suc (update_deriv_calls s)"
    if "parameter_hash_changed s \<or> \<not> m_gradient_update s"
  proof (cases "parameter_hash_changed s")
    case True
    with u have up: "update alg s = Inr u" by simp
    then have "\<not> m_gradient_update u" by (rule update_facts)
    then show ?thesis
      by (simp add: s1 deriv_step_fields update_facts(16) [OF up])
  next
    case False
    with u have "u = s" by simp
    with that False show ?thesis
      by (simp add: s1 deriv_step_fields)
  qed
qed

lemma derivative_on_current:
  assumes "deriv_current alg s1"
  shows "get_derivative_wrt_likelihood_model p s1 =
         get_derivative_wrt_likelihood_model p (update_deriv alg s1)"
  using assms by (intro derivative_cong) (simp_all add: deriv_current_def update_deriv_keeps)

subsection \<open>Running the engine on the two-point problem\<close>

lemma upt_2: "[0..<Suc (Suc 0)] = [0, Suc 0]"
  by (simp add: upt_rec)

lemma two_sel:
  "num_rows (row2 a b) = Suc 0" "num_cols (row2 a b) = Suc (Suc 0)"
  "el (row2 a b) 0 0 = a" "el (row2 a b) 0 (Suc 0) = b"
  "num_rows (col2 a b) = Suc (Suc 0)" "num_cols (col2 a b) = Suc 0"
  "el (col2 a b) 0 0 = a" "el (col2 a b) (Suc 0) 0 = b"
  "num_rows (mat2 a b c d) = Suc (Suc 0)" "num_cols (mat2 a b c d) = Suc (Suc 0)"
  "el (mat2 a b c d) 0 0 = a" "el (mat2 a b c d) 0 (Suc 0) = b"
  "el (mat2 a b c d) (Suc 0) 0 = c" "el (mat2 a b c d) (Suc 0) (Suc 0) = d"
  "matrix (col2 a b) = [a, b]"
  by (simp_all add: row2_def col2_def mat2_def el_def)

lemma mk_two:
  "mk_matrix (Suc 0) (Suc (Suc 0)) f = row2 (f 0 0) (f 0 (Suc 0))"
  "mk_matrix (Suc (Suc 0)) (Suc 0) f = col2 (f 0 0) (f (Suc 0) 0)"
  "mk_matrix (Suc (Suc 0)) (Suc (Suc 0)) f = mat2 (f 0 0) (f 0 (Suc 0)) (f (Suc 0) 0) (f (Suc 0) (Suc 0))"
  "mk_vector (Suc (Suc 0)) g = [g 0, g (Suc 0)]"
  "col_vector [a, b] = col2 a b"
  by (simp_all add: mk_matrix_def mk_vector_def col_vector_def row2_def col2_def mat2_def upt_rec
      mod_Suc div_Suc)

lemmas two_point = two_sel mk_two upt_2 numeral_2_eq_2

text \<open>The reference provider on a system with two unknowns.\<close>

lemma ref_cholesky_2: "ref_matrixU (mat2 4 2 2 5) = mat2 2 1 0 2"
  by (simp add: ref_matrixU_def two_point)

lemma ref_back_substitution_2: "ref_upper_solve (mat2 2 1 0 2) (col2 4 2) = col2 (3 / 2) 1"
  by (simp add: ref_upper_solve_def two_point)

lemma ref_forward_substitution_2: "ref_upper_adjoint_solve (mat2 2 1 0 2) (col2 4 2) = col2 2 0"
  by (simp add: ref_upper_adjoint_solve_def two_point)

lemma ref_solve_row:
  "ref_upper_solve (mat1 u) (row2 a b) = row2 (a / u) (b / u)"
  "ref_upper_adjoint_solve (mat1 u) (row2 a b) = row2 (a / u) (b / u)"
  by (simp_all add: ref_upper_solve_def ref_upper_adjoint_solve_def two_point mat1_sel)

lemma sqrt_49_36: "sqrt (49 / 36) = 7 / 6"
  by (rule real_sqrt_unique) (simp_all add: power2_eq_square)

lemmas duo_defs = duo2_def duo1_def duo_chol_def duo_kernel_def duo0_def

lemma Inference_update_duo:
  "Inference_update (duo0\<lparr>update_calls := Suc (update_calls duo0)\<rparr>) = Inr duo_kernel"
  by (simp add: Inference_update_def check_members_def require_def bind_err_def
      update_train_kernel_def duo_kernel_def duo0_def demo0_def)

lemma duo_kernel_fields:
  "lik_sigma duo_kernel = Inr (1 / 2)" "m_kuu duo_kernel = mat1 3"
  "m_ktru duo_kernel = row2 (2 / 3) 1" "m_ktrtr_diag duo_kernel = [31 / 36, 1]"
  "m_log_scale duo_kernel = 0" "m_log_ind_noise duo_kernel = 0"
  "labels duo_kernel = [1, 2]" "mean_vector duo_kernel = [0, 0]"
  by (simp_all add: duo_kernel_def duo0_def demo0_def)

lemma update_chol_duo: "update_chol ref_alg duo_kernel = Inr duo_chol"
  apply (subst update_chol_def)
  apply (simp only: Let_def)
  apply (simp add: duo_kernel_fields bind_err_def eigen_ops one_point two_point ref_one_point
      ref_solve_row sqrt_49_36)
  apply (simp add: duo_chol_def)
  done

lemma duo_chol_fields:
  "m_chol_uu duo_chol = mat1 2" "m_chol_utr duo_chol = mat1 (7 / 6)" "m_be duo_chol = [8 / 7]"
  by (simp_all add: duo_chol_def)

lemma update_alpha_duo: "update_alpha ref_alg duo_chol = duo_chol\<lparr>m_alpha := [24 / 49]\<rparr>"
  apply (subst update_alpha_def)
  apply (simp only: Let_def)
  apply (simp add: duo_chol_fields eigen_ops one_point ref_one_point)
  done

lemma update_duo: "update ref_alg duo0 = Inr duo1"
  by (simp add: update_def Inference_update_duo update_chol_duo update_alpha_duo bind_err_def
      update_parameter_hash_def duo1_def)
     (simp add: duo_chol_def duo_kernel_def duo0_def demo0_def)

lemma duo1_fields:
  "m_ktru duo1 = row2 (2 / 3) 1" "m_chol_utr duo1 = mat1 (7 / 6)" "m_chol_uu duo1 = mat1 2"
  "m_t duo1 = [1, 1]" "m_be duo1 = [8 / 7]" "labels duo1 = [1, 2]" "mean_vector duo1 = [0, 0]"
  "m_V duo1 = row2 (1 / 3) (1 / 2)" "m_kuu duo1 = mat1 3" "m_log_scale duo1 = 0"
  "update_deriv_calls duo1 = 0"
  by (simp_all add: duo1_def duo_chol_def duo_kernel_def duo0_def demo0_def)

lemma update_deriv_duo: "update_deriv ref_alg duo1 = duo2\<lparr>m_gradient_update := False\<rparr>"
  apply (subst update_deriv_def)
  apply (simp only: Let_def)
  apply (simp add: duo1_fields eigen_ops one_point two_point ref_one_point ref_solve_row)
  apply (simp add: duo2_def duo1_def)
  done

lemma duo_flags:
  "parameter_hash_changed duo0" "\<not> m_gradient_update duo1" "\<not> parameter_hash_changed duo1"
  by (simp_all add: parameter_hash_changed_def duo1_def duo_chol_def duo_kernel_def duo0_def demo0_def)

lemma compute_gradient_duo: "compute_gradient ref_alg duo0 = Inr duo2"
  by (simp add: compute_gradient_def Inference_compute_gradient_def duo_flags bind_err_def
      update_duo update_deriv_duo update_parameter_hash_def)
     (simp add: duo2_def duo1_def duo_chol_def duo_kernel_def duo0_def demo0_def)

lemma shapes_ok_duo: "shapes_ok duo0"
  by (simp add: shapes_ok_def duo_flags) (simp add: duo0_def demo0_def mat1_sel two_sel)

lemma duo2_fields:
  "m_ktrtr_diag duo2 = [31 / 36, 1]" "m_V duo2 = row2 (1 / 3) (1 / 2)" "m_chol_utr duo2 = mat1 (7 / 6)"
  "m_kuu duo2 = mat1 3" "m_log_scale duo2 = 0" "m_ktru duo2 = row2 (2 / 3) 1"
  "m_alpha duo2 = [24 / 49]" "m_al duo2 = [33 / 49, 74 / 49]"
  by (simp_all add: duo_defs demo0_def)

lemma posterior_covariance_duo:
  "get_posterior_covariance ref_alg duo0 =
     Inr (mat2 (163 / 196) (6 / 49) (6 / 49) (183 / 196),
          duo2\<lparr>m_Sigma := mat2 (163 / 196) (6 / 49) (6 / 49) (183 / 196)\<rparr>)"
  apply (simp only: get_posterior_covariance_def compute_gradient_duo bind_err_def sum.case Let_def)
  apply (simp add: duo2_fields eigen_ops one_point two_point ref_one_point)
  done

lemma list_of_two: "length xs = Suc (Suc 0) \<Longrightarrow> xs = [xs ! 0, xs ! Suc 0]"
  by (auto simp: length_Suc_conv)

section \<open>The claims\<close>

text \<open>
  C1. On a state \<open>s\<close> that \<open>update()\<close> produced, the accessor returns
  \<open>sum(log(diag(Lu))) + (-sum(log(t)) + r'r - be'be + n log(2 pi)) / 2\<close> over the cached
  \<open>Lu\<close>, \<open>t\<close>, \<open>r\<close>, \<open>be\<close>, with \<open>n\<close> the number of training points (the length
  of the kernel diagonal), and leaves the state as it is. On a stale state \<open>s0\<close> it
  first runs \<open>update()\<close> and answers from the state \<open>s\<close> that \<open>update()\<close> returns.
\<close>

theorem nlml_formula:
  assumes "update alg s0 = Inr s"
  shows "get_negative_log_marginal_likelihood alg s =
           Inr ((\<Sum>i<min (num_rows (m_chol_utr s)) (num_cols (m_chol_utr s)). ln (el (m_chol_utr s) i i)) +
                (- (\<Sum>i<length (m_t s). ln (m_t s ! i)) + (\<Sum>i<length (m_r s). m_r s ! i * m_r s ! i)
                 - (\<Sum>i<length (m_be s). m_be s ! i * m_be s ! i)
                 + real (length (kernel_trtr_diag s0)) * ln (2 * pi)) / 2, s) \<and>
         (parameter_hash_changed s0 \<longrightarrow>
            get_negative_log_marginal_likelihood alg s0 = get_negative_log_marginal_likelihood alg s)"
proof -
  have fresh: "\<not> parameter_hash_changed s"
    using assms by (rule update_fresh)
  have n: "m_ktrtr_diag s = kernel_trtr_diag s0"
    using assms by (rule update_facts)
  have *: "\<And>t. \<not> parameter_hash_changed t \<Longrightarrow> get_negative_log_marginal_likelihood alg t =
      Inr ((\<Sum>i<min (num_rows (m_chol_utr t)) (num_cols (m_chol_utr t)). ln (el (m_chol_utr t) i i)) +
                (- (\<Sum>i<length (m_t t). ln (m_t t ! i)) + (\<Sum>i<length (m_r t). m_r t ! i * m_r t ! i)
                 - (\<Sum>i<length (m_be t). m_be t ! i * m_be t ! i)
                 + real (length (m_ktrtr_diag t)) * ln (2 * pi)) / 2, t)"
    by (simp add: get_negative_log_marginal_likelihood_def bind_err_def Let_def
        sum_log_diagonal dot_self)
       (simp add: vec_sum_def sum_list_map_nth)
  have "parameter_hash_changed s0 \<Longrightarrow>
        get_negative_log_marginal_likelihood alg s0 = get_negative_log_marginal_likelihood alg s"
    using assms fresh by (simp add: get_negative_log_marginal_likelihood_def bind_err_def)
  with * [OF fresh] n show ?thesis by simp
qed

theorem nlml_formula_witness:
  "update ref_alg demo0 = Inr demo1 \<and> parameter_hash_changed demo0 \<and>
   get_negative_log_marginal_likelihood ref_alg demo0 =
     Inr (ln (5 / 4) + (4 - 36 / 25 + ln (2 * pi)) / 2, demo1)"
  using nlml_formula [OF update_demo0] demo_flags(1) update_demo0
  by (simp add: demo_defs mat1_sel)

text \<open>
  C2, as the code has it. On the degenerate problem \<open>update()\<close> returns normally, with
  \<open>V = 2\<close> and \<open>t = -1/2\<close>: the quantity it inverts, computed from the noise scale \<open>1\<close>,
  the kernel diagonal and that \<open>V\<close>, is \<open>-2\<close>.
\<close>

theorem reciprocal_unchecked_counterexample:
  "map_sum id (\<lambda>s'. (m_V s', m_t s')) (update ref_alg demo_degenerate) = Inr (mat1 2, [- 1 / 2]) \<and>
   lik_sigma demo_degenerate = Inr 1 \<and>
   kernel_trtr_diag demo_degenerate ! 0 * exp (2 * m_log_scale demo_degenerate) + 1\<^sup>2
     - (el (mat1 2) 0 0)\<^sup>2 = - 2"
proof -
  have g: "lik_sigma demo_degenerate = Inr 1 \<and>
      kernel_trtr_diag demo_degenerate ! 0 * exp (2 * m_log_scale demo_degenerate) + 1\<^sup>2
        - (el (mat1 2) 0 0)\<^sup>2 = - 2"
    by (simp add: demo_degenerate_def demo0_def mat1_sel)
  have "check_members demo_degenerate = Inr ()" "lik_sigma demo_degenerate = Inr 1"
    by (simp_all add: check_members_def require_def bind_err_def demo_degenerate_def demo0_def)
  then obtain s' where u: "update ref_alg demo_degenerate = Inr s'"
    using update_total by blast
  from update_chol_part [OF u] degenerate_chol have "m_V s' = mat1 2" "m_t s' = [- 1 / 2]"
    by auto
  with u g show ?thesis by simp
qed

text \<open>
  C2, amended. \<open>update_chol\<close> has no check on the quantity it inverts. Whenever the member
  checks pass and the likelihood is Gaussian, \<open>update()\<close> returns normally, and entry
  \<open>i\<close> of \<open>t\<close> is the reciprocal of
  \<open>g = diag K[i] * exp(2 log_scale) + sigma^2 - sum_k V[k,i]^2\<close> where \<open>g\<close> is not zero:
  positive where \<open>g\<close> is positive, negative where \<open>g\<close> is negative.
\<close>

theorem reciprocal_unchecked:
  assumes "check_members s = Inr ()" and "lik_sigma s = Inr sigma"
    and "num_cols (kernel_tru s) = length (kernel_trtr_diag s)"
  shows "\<exists>s'. update alg s = Inr s' \<and> length (m_t s') = length (kernel_trtr_diag s) \<and>
           (\<forall>i<length (kernel_trtr_diag s).
              let g = kernel_trtr_diag s ! i * exp (2 * m_log_scale s) + sigma\<^sup>2
                      - (\<Sum>k<num_rows (m_V s'). (el (m_V s') k i)\<^sup>2)
              in (g \<noteq> 0 \<longrightarrow> m_t s' ! i = 1 / g) \<and> (0 < g \<longrightarrow> 0 < m_t s' ! i) \<and>
                 (g < 0 \<longrightarrow> m_t s' ! i < 0))"
proof -
  from update_total [OF assms(1,2)] obtain s' where u: "update alg s = Inr s'"
    by blast
  have len: "length (m_t s') = length (kernel_trtr_diag s)"
    using u by (rule update_facts)
  have "\<And>i. i < length (kernel_trtr_diag s) \<Longrightarrow>
          m_t s' ! i = 1 / (kernel_trtr_diag s ! i * exp (2 * m_log_scale s) + sigma\<^sup>2
                            - (\<Sum>k<num_rows (m_V s'). (el (m_V s') k i)\<^sup>2))"
    using update_t [OF u assms(2,3)] by (simp add: power2_eq_square mult.commute)
  with u len show ?thesis
    by (auto simp: Let_def)
qed

theorem reciprocal_unchecked_witness:
  "check_members demo0 = Inr () \<and> lik_sigma demo0 = Inr (1 / 2) \<and>
   num_cols (kernel_tru demo0) = length (kernel_trtr_diag demo0) \<and>
   update ref_alg demo0 = Inr demo1 \<and> m_t demo1 ! 0 = 1 \<and> 0 < m_t demo1 ! 0"
proof -
  have h: "check_members demo0 = Inr ()" "lik_sigma demo0 = Inr (1 / 2)"
    "num_cols (kernel_tru demo0) = length (kernel_trtr_diag demo0)"
    by (simp_all add: check_members_def require_def bind_err_def demo0_def mat1_sel)
  from reciprocal_unchecked [OF h, of ref_alg] update_demo0
  have "let g = kernel_trtr_diag demo0 ! 0 * exp (2 * m_log_scale demo0) + (1 / 2)\<^sup>2
                - (\<Sum>k<num_rows (m_V demo1). (el (m_V demo1) k 0)\<^sup>2)
        in (g \<noteq> 0 \<longrightarrow> m_t demo1 ! 0 = 1 / g) \<and> (0 < g \<longrightarrow> 0 < m_t demo1 ! 0) \<and>
           (g < 0 \<longrightarrow> m_t demo1 ! 0 < 0)"
    by (auto simp: demo0_def)
  then have "m_t demo1 ! 0 = 1 \<and> 0 < m_t demo1 ! 0"
    by (simp add: Let_def demo_defs mat1_sel power2_eq_square)
  with h update_demo0 show ?thesis by simp
qed

text \<open>
  C3. With the noise scale \<open>sigma\<close> read from the Gaussian likelihood, the derivative wrt
  \<open>log_sigma\<close> is the one-element vector
  \<open>sigma^2 * (sum(t) - sum(Rvdd .* Rvdd) - al . al)\<close> over the cached \<open>t\<close>, \<open>Rvdd\<close>, \<open>al\<close>.
\<close>

theorem likelihood_derivative_formula:
  assumes "lik_sigma s = Inr sigma"
  shows "get_derivative_wrt_likelihood_model (''log_sigma'', p) s =
           Inr [sigma\<^sup>2 * ((\<Sum>i<length (m_t s). m_t s ! i)
                        - (\<Sum>j<num_cols (m_Rvdd s). \<Sum>i<num_rows (m_Rvdd s). (el (m_Rvdd s) i j)\<^sup>2)
                        - (\<Sum>i<length (m_al s). (m_al s ! i)\<^sup>2))]"
  using assms
  by (simp add: get_derivative_wrt_likelihood_model_def require_def bind_err_def Let_def
      sum_ones_product mat_sum_squares dot_self sq_def power2_eq_square)

theorem likelihood_derivative_formula_witness:
  "lik_sigma demo2 = Inr (1 / 2) \<and>
   get_derivative_wrt_likelihood_model (''log_sigma'', ()) demo2 = Inr [- 156 / 625]"
  using likelihood_derivative_formula [of demo2 "1 / 2" "()"]
  by (simp add: demo_defs mat1_sel power2_eq_square)

text \<open>
  C4. A parameter name other than \<open>log_sigma\<close> makes
  \<open>get_derivative_wrt_likelihood_model\<close> fail with an exception whose
  message names the likelihood model and the offending parameter.
\<close>

theorem unsupported_parameter_error:
  "fst param \<noteq> ''log_sigma'' \<Longrightarrow>
   get_derivative_wrt_likelihood_model param s =
     Inl (ShogunException
       (''Can't compute derivative of the nagative log marginal likelihood wrt '' @
        model_name s @ ''.'' @ fst param @ '' parameter''))"
  by (simp only: get_derivative_wrt_likelihood_model_def require_def bind_err_def format_two)
     simp

theorem unsupported_parameter_error_witness:
  "fst (''wrong_name'', ()) \<noteq> ''log_sigma'' \<and>
   get_derivative_wrt_likelihood_model (''wrong_name'', ()) demo0 =
     Inl (ShogunException
       ''Can't compute derivative of the nagative log marginal likelihood wrt GaussianLikelihood.wrong_name parameter'')"
  using unsupported_parameter_error [of "(''wrong_name'', ())" demo0]
  by (simp add: demo0_def)

text \<open>
  C5. \<open>get_posterior_mean\<close> runs \<open>compute_gradient()\<close> and, from the state \<open>s1\<close> it
  returns, yields the vector with one entry per training point whose entry \<open>i\<close> is
  \<open>exp(2 log_scale) * sum_k Ktru[k,i] * alpha[k]\<close>, that is \<open>exp(2 log_scale) * Ktru' * alpha\<close>;
  it stores that vector in \<open>m_mu\<close>. The labels, the prior mean, \<open>al\<close> and the noise scale,
  which the alternate formula would read, do not occur.
\<close>

theorem posterior_mean_formula:
  assumes "shapes_ok s" and "compute_gradient alg s = Inr s1"
  shows "\<exists>mu. get_posterior_mean alg s = Inr (mu, s1\<lparr>m_mu := mu\<rparr>) \<and>
           length mu = length (kernel_trtr_diag s) \<and>
           (\<forall>i<length mu. mu ! i =
              exp (2 * m_log_scale s1) * (\<Sum>k<num_rows (m_ktru s1). el (m_ktru s1) k i * m_alpha s1 ! k))"
proof -
  let ?mu = "assign_vector (length (m_al s1))
               (mat_vec (scale_mat (exp (m_log_scale s1 * 2)) (adjoint (m_ktru s1))) (m_alpha s1))"
  have n: "length (m_al s1) = length (kernel_trtr_diag s)"
    "num_cols (m_ktru s1) = length (kernel_trtr_diag s)"
    using compute_gradient_shapes [OF assms] by simp_all
  have "get_posterior_mean alg s = Inr (?mu, s1\<lparr>m_mu := ?mu\<rparr>)"
    using assms(2) by (rule posterior_mean_Inr)
  moreover have "length ?mu = length (kernel_trtr_diag s)"
    using n by simp
  moreover have "\<forall>i<length ?mu. ?mu ! i =
      exp (2 * m_log_scale s1) * (\<Sum>k<num_rows (m_ktru s1). el (m_ktru s1) k i * m_alpha s1 ! k)"
  proof (intro allI impI)
    fix i assume "i < length ?mu"
    then have i: "i < length (m_al s1)" "i < num_cols (m_ktru s1)"
      using n by simp_all
    have "?mu ! i = mat_vec (scale_mat (exp (m_log_scale s1 * 2)) (adjoint (m_ktru s1))) (m_alpha s1) ! i"
      using i(1) by (simp only: nth_ops(1))
    also have "\<dots> = exp (m_log_scale s1 * 2) * (\<Sum>k<num_rows (m_ktru s1). el (m_ktru s1) k i * m_alpha s1 ! k)"
      using i(2) by (rule posterior_mean_entry)
    finally show "?mu ! i =
      exp (2 * m_log_scale s1) * (\<Sum>k<num_rows (m_ktru s1). el (m_ktru s1) k i * m_alpha s1 ! k)"
      by (simp only: mult.commute [of 2 "m_log_scale s1"])
  qed
  ultimately show ?thesis by blast
qed

theorem posterior_mean_formula_witness:
  "shapes_ok duo0 \<and> compute_gradient ref_alg duo0 = Inr duo2 \<and>
   get_posterior_mean ref_alg duo0 = Inr ([16 / 49, 24 / 49], duo2\<lparr>m_mu := [16 / 49, 24 / 49]\<rparr>) \<and>
   [labels duo2 ! 0 - mean_vector duo2 ! 0 - m_al duo2 ! 0 * (1 / 2)\<^sup>2,
    labels duo2 ! 1 - mean_vector duo2 ! 1 - m_al duo2 ! 1 * (1 / 2)\<^sup>2] \<noteq> [16 / 49, 24 / 49]"
proof -
  from posterior_mean_formula [OF shapes_ok_duo compute_gradient_duo] obtain mu where
    m: "get_posterior_mean ref_alg duo0 = Inr (mu, duo2\<lparr>m_mu := mu\<rparr>)" and
    l: "length mu = length (kernel_trtr_diag duo0)" and
    e: "\<forall>i<length mu. mu ! i =
          exp (2 * m_log_scale duo2) * (\<Sum>k<num_rows (m_ktru duo2). el (m_ktru duo2) k i * m_alpha duo2 ! k)"
    by blast
  have l2: "length mu = Suc (Suc 0)"
    using l by (simp add: duo0_def)
  have "mu ! 0 = 16 / 49" "mu ! Suc 0 = 24 / 49"
    using e l2 by (simp_all add: duo2_fields two_sel)
  with list_of_two [OF l2] have "mu = [16 / 49, 24 / 49]"
    by simp
  with m shapes_ok_duo compute_gradient_duo show ?thesis
    by (simp add: duo_defs demo0_def power2_eq_square)
qed

text \<open>
  C6. The matrix \<open>get_posterior_covariance\<close> returns is \<open>n\<close> by \<open>n\<close>, its entry
  \<open>(i, j)\<close> is \<open>sum_k part1[i,k] * part1[j,k]\<close> plus, on the diagonal,
  \<open>diag K[i] * exp(2 log_scale) - sum_k V[k,i]^2\<close>, where
  \<open>part1 = V' * (Lu solved against the identity)\<close>; so entry \<open>(i, j)\<close> equals entry
  \<open>(j, i)\<close>.
\<close>

theorem posterior_covariance_symmetric:
  assumes "shapes_ok s" and "get_posterior_covariance alg s = Inr (S, s')"
  shows "num_rows S = length (kernel_trtr_diag s) \<and> num_cols S = length (kernel_trtr_diag s) \<and>
         (\<forall>i<length (kernel_trtr_diag s). \<forall>j<length (kernel_trtr_diag s).
            (let part1 = mat_mul (adjoint (m_V s'))
                           (upper_solve alg (m_chol_utr s')
                              (Identity (num_rows (m_kuu s')) (num_cols (m_kuu s'))))
             in el S i j =
                  (\<Sum>k<num_cols part1. el part1 i k * el part1 j k) +
                  (if i = j
                   then m_ktrtr_diag s' ! i * exp (2 * m_log_scale s')
                        - (\<Sum>k<num_rows (m_V s'). (el (m_V s') k i)\<^sup>2)
                   else 0)) \<and>
            el S i j = el S j i)"
proof -
  from posterior_covariance_Inr [OF assms(2)] obtain s1 where
    g: "compute_gradient alg s = Inr s1" and s': "s' = s1\<lparr>m_Sigma := S\<rparr>" and
    S: "S = assign_matrix (length (m_ktrtr_diag s1)) (length (m_ktrtr_diag s1))
                 (mat_add
                    (assign_matrix (length (m_ktrtr_diag s1)) (length (m_ktrtr_diag s1))
                       (mat_mul
                          (mat_mul (adjoint (m_V s1))
                             (upper_solve alg (m_chol_utr s1)
                                (Identity (num_rows (m_kuu s1)) (num_cols (m_kuu s1)))))
                          (adjoint
                             (mat_mul (adjoint (m_V s1))
                                (upper_solve alg (m_chol_utr s1)
                                   (Identity (num_rows (m_kuu s1)) (num_cols (m_kuu s1))))))))
                    (asDiagonal
                       (vec_sub (vec_scale (m_ktrtr_diag s1) (exp (m_log_scale s1 * 2)))
                          (colwise_sum (cwiseProduct (m_V s1) (m_V s1))))))"
    by blast
  let ?n = "length (kernel_trtr_diag s)"
  let ?X = "upper_solve alg (m_chol_utr s1) (Identity (num_rows (m_kuu s1)) (num_cols (m_kuu s1)))"
  let ?P = "mat_mul (adjoint (m_V s1)) ?X"
  have n: "length (m_ktrtr_diag s1) = ?n" "num_cols (m_V s1) = ?n"
    using compute_gradient_shapes [OF assms(1) g] by simp_all
  have entry: "el S i j = (\<Sum>k<num_cols ?X. el ?P i k * el ?P j k) +
      (if i = j then m_ktrtr_diag s1 ! i * exp (m_log_scale s1 * 2)
                     - (\<Sum>k<num_rows (m_V s1). el (m_V s1) k i * el (m_V s1) k i) else 0)"
    if "i < ?n" "j < ?n" for i j
    unfolding S n using posterior_covariance_entry [OF n(2) n(1) that] .
  have sym: "el S i j = el S j i" if "i < ?n" "j < ?n" for i j
    using entry [OF that] entry [OF that(2,1)] by (simp add: mult.commute)
  have shape: "num_rows S = ?n" "num_cols S = ?n"
    unfolding S n by simp_all
  show ?thesis
    using shape entry sym
    by (simp add: s' Let_def power2_eq_square mult.commute)
qed

theorem posterior_covariance_symmetric_witness:
  "shapes_ok duo0 \<and>
   get_posterior_covariance ref_alg duo0 =
     Inr (mat2 (163 / 196) (6 / 49) (6 / 49) (183 / 196),
          duo2\<lparr>m_Sigma := mat2 (163 / 196) (6 / 49) (6 / 49) (183 / 196)\<rparr>) \<and>
   num_rows (mat2 (163 / 196) (6 / 49) (6 / 49) (183 / 196)) = 2 \<and>
   el (mat2 (163 / 196) (6 / 49) (6 / 49) (183 / 196)) 0 1 = (2 / 7) * (3 / 7) \<and>
   el (mat2 (163 / 196) (6 / 49) (6 / 49) (183 / 196)) 0 1 =
   el (mat2 (163 / 196) (6 / 49) (6 / 49) (183 / 196)) 1 0"
  using posterior_covariance_symmetric [OF shapes_ok_duo posterior_covariance_duo]
    shapes_ok_duo posterior_covariance_duo
  by (simp add: two_sel)

text \<open>
  C7. After a call of the accessor has returned \<open>v\<close> and the state \<open>s1\<close>, the hash is
  unchanged in \<open>s1\<close>, and a second call returns \<open>v\<close> again and the very state \<open>s1\<close>:
  the counters \<open>update_calls\<close> and \<open>update_deriv_calls\<close> are fields of the state, so
  neither \<open>update()\<close> nor \<open>update_deriv()\<close> has run. On a state \<open>t\<close> whose hash is
  unchanged and whose gradient flag says up to date, \<open>compute_gradient()\<close> returns \<open>t\<close>.
\<close>

theorem nlml_second_call_cached:
  assumes "get_negative_log_marginal_likelihood alg s = Inr (v, s1)"
  shows "\<not> parameter_hash_changed s1 \<and>
         get_negative_log_marginal_likelihood alg s1 = Inr (v, s1) \<and>
         (\<not> parameter_hash_changed t \<and> m_gradient_update t \<longrightarrow> compute_gradient alg t = Inr t)"
proof -
  have u: "(if parameter_hash_changed s then update alg s else Inr s) = Inr s1"
    using assms by (rule nlml_Inr)
  have "\<not> parameter_hash_changed s1"
    using u by (rule stale_or_fresh)
  moreover have "get_negative_log_marginal_likelihood alg s1 = Inr (v, s1)"
    using nlml_after [OF u] assms by simp
  moreover have "\<not> parameter_hash_changed t \<and> m_gradient_update t \<longrightarrow> compute_gradient alg t = Inr t"
    by (simp add: compute_gradient_def Inference_compute_gradient_def bind_err_def)
  ultimately show ?thesis by blast
qed

theorem nlml_second_call_cached_witness:
  "get_negative_log_marginal_likelihood ref_alg demo0 =
     Inr (ln (5 / 4) + (4 - 36 / 25 + ln (2 * pi)) / 2, demo1) \<and>
   get_negative_log_marginal_likelihood ref_alg demo1 =
     Inr (ln (5 / 4) + (4 - 36 / 25 + ln (2 * pi)) / 2, demo1) \<and>
   update_calls demo1 = 1 \<and>
   \<not> parameter_hash_changed demo2 \<and> m_gradient_update demo2 \<and>
   compute_gradient ref_alg demo2 = Inr demo2"
  using nlml_second_call_cached [OF nlml_demo0, of demo2] nlml_demo0 demo_flags
  by (simp add: demo_defs)

text \<open>
  C8. The accessors that read the derivative quantities answer from the state
  \<open>compute_gradient()\<close> returns: \<open>get_posterior_mean\<close> and \<open>get_posterior_covariance\<close>
  call it themselves, and \<open>get_derivative_wrt_likelihood_model\<close> is reached through the
  caller path \<open>gradient_wrt_likelihood_model\<close>, which runs it first. In that state the flag
  says up to date and the hash is unchanged. When the state the call starts from is stale,
  that is, its hash has changed (a new hyperparameter generation) or its flag is dirty,
  \<open>update_deriv()\<close> runs within the call, after \<open>update()\<close> when the hash has changed, so the
  formula is evaluated on \<open>al\<close>, \<open>B\<close>, \<open>w\<close>, \<open>Rvdd\<close> recomputed for the current
  generation and never on the ones left over. When the state is not stale nothing is
  recomputed, and the quantities read are current as long as the flag was honest
  (\<open>deriv_inv\<close>), which the lemmas \<open>deriv_inv_stale\<close>, \<open>deriv_inv_update\<close>,
  \<open>deriv_inv_compute_gradient\<close>, \<open>deriv_inv_nlml\<close>, \<open>deriv_inv_posterior_mean\<close>,
  \<open>deriv_inv_posterior_covariance\<close> and \<open>deriv_inv_gradient\<close> establish for the states the
  engine produces.
\<close>

theorem gradient_accessors_route_through_compute_gradient:
  assumes "compute_gradient alg s = Inr s1"
  shows "(\<exists>mu. get_posterior_mean alg s = Inr (mu, s1\<lparr>m_mu := mu\<rparr>)) \<and>
         (\<exists>S. get_posterior_covariance alg s = Inr (S, s1\<lparr>m_Sigma := S\<rparr>)) \<and>
         gradient_wrt_likelihood_model alg p s =
           bind_err (get_derivative_wrt_likelihood_model p s1) (\<lambda>g. Inr (g, s1)) \<and>
         m_gradient_update s1 \<and> \<not> parameter_hash_changed s1 \<and>
         (parameter_hash_changed s \<longrightarrow> update_calls s1 = Suc (update_calls s)) \<and>
         (parameter_hash_changed s \<or> \<not> m_gradient_update s \<longrightarrow>
            update_deriv_calls s1 = Suc (update_deriv_calls s) \<and> deriv_current alg s1 \<and>
            get_derivative_wrt_likelihood_model p s1 =
              get_derivative_wrt_likelihood_model p (update_deriv alg s1)) \<and>
         (deriv_inv alg s \<longrightarrow>
            deriv_current alg s1 \<and>
            get_derivative_wrt_likelihood_model p s1 =
              get_derivative_wrt_likelihood_model p (update_deriv alg s1))"
proof -
  have mean: "\<exists>mu. get_posterior_mean alg s = Inr (mu, s1\<lparr>m_mu := mu\<rparr>)"
    using posterior_mean_Inr [OF assms] by blast
  have cov: "\<exists>S. get_posterior_covariance alg s = Inr (S, s1\<lparr>m_Sigma := S\<rparr>)"
    using assms by (rule posterior_covariance_total)
  have grad: "gradient_wrt_likelihood_model alg p s =
           bind_err (get_derivative_wrt_likelihood_model p s1) (\<lambda>g. Inr (g, s1))"
    using assms by (rule gradient_Inr)
  have post: "m_gradient_update s1" "\<not> parameter_hash_changed s1"
    using compute_gradient_post [OF assms] by simp_all
  have inv: "deriv_current alg s1 \<and>
            get_derivative_wrt_likelihood_model p s1 =
              get_derivative_wrt_likelihood_model p (update_deriv alg s1)" if "deriv_inv alg s"
    using compute_gradient_current [OF that assms] derivative_on_current by blast
  have stale: "update_deriv_calls s1 = Suc (update_deriv_calls s) \<and> deriv_current alg s1 \<and>
            get_derivative_wrt_likelihood_model p s1 =
              get_derivative_wrt_likelihood_model p (update_deriv alg s1)"
    if "parameter_hash_changed s \<or> \<not> m_gradient_update s"
    using compute_gradient_calls(2) [OF assms that] inv [OF deriv_inv_stale [OF that]] by blast
  have upd: "parameter_hash_changed s \<longrightarrow> update_calls s1 = Suc (update_calls s)"
    using compute_gradient_calls(1) [OF assms] by blast
  from mean cov grad post upd stale inv show ?thesis by blast
qed

theorem gradient_accessors_route_through_compute_gradient_witness:
  "compute_gradient ref_alg demo_stale = Inr demo4 \<and>
   parameter_hash_changed demo_stale \<and> deriv_inv ref_alg demo_stale \<and>
   gradient_wrt_likelihood_model ref_alg (''log_sigma'', ()) demo_stale = Inr ([- 99 / 2500], demo4) \<and>
   update_calls demo4 = Suc (update_calls demo_stale) \<and>
   update_deriv_calls demo4 = Suc (update_deriv_calls demo_stale) \<and>
   deriv_current ref_alg demo4 \<and>
   get_derivative_wrt_likelihood_model (''log_sigma'', ()) (update_deriv ref_alg demo4) =
     Inr [- 99 / 2500] \<and>
   get_derivative_wrt_likelihood_model (''log_sigma'', ()) demo_stale = Inr [- 156 / 625]"
proof -
  have inv: "deriv_inv ref_alg demo_stale"
    by (simp add: deriv_inv_def stale_flags)
  from gradient_accessors_route_through_compute_gradient
         [OF compute_gradient_stale, of "(''log_sigma'', ())"]
    inv compute_gradient_stale derivative_demo4 derivative_stale stale_flags(1)
  show ?thesis by (simp add: bind_err_def)
qed

text \<open>
  C9, as the code has it. A null handle is returned as null, with no error: the first
  statement of \<open>obtain_from_generic\<close> is that guard.
\<close>

theorem obtain_from_generic_null_counterexample:
  "obtain_from_generic (\<lambda>t. t) (\<lambda>t. Inr t) (None :: EInferenceType option) = Inr None"
  by (simp add: obtain_from_generic_def)

text \<open>
  C9, amended. A null handle yields null and no error; a handle to an object whose
  inference type is not FITC regression fails with the error that names
  FITCInferenceMethod, before any cast is tried.
\<close>

theorem obtain_from_generic_checked:
  "obtain_from_generic get_inference_type as_FITC None = Inr None \<and>
   (get_inference_type obj \<noteq> INF_FITC_REGRESSION \<longrightarrow>
      obtain_from_generic get_inference_type as_FITC (Some obj) =
        Inl (ShogunException ''Provided inference is not of type FITCInferenceMethod!''))"
  by (simp add: obtain_from_generic_def)

theorem obtain_from_generic_checked_witness:
  "(\<lambda>t. t) (INF_OTHER 0) \<noteq> INF_FITC_REGRESSION \<and>
   obtain_from_generic (\<lambda>t. t) (\<lambda>t. Inr t) (Some (INF_OTHER 0)) =
     Inl (ShogunException ''Provided inference is not of type FITCInferenceMethod!'')"
  using obtain_from_generic_checked [of "\<lambda>t. t" "\<lambda>t. Inr t" "INF_OTHER 0"]
  by simp

text \<open>
  C10. Two engine states whose states after \<open>compute_gradient()\<close> agree on \<open>V\<close>, on the
  factor \<open>Lu\<close>, on the kernel diagonal and on \<open>log_scale\<close> return the same posterior
  covariance, whatever their \<open>al\<close>, \<open>B\<close>, \<open>w\<close>, \<open>Rvdd\<close> are. The shape of the identity
  the code solves against is taken from \<open>Kuu\<close>; in a state with the shapes \<open>update()\<close>
  gives, that shape is the number of rows of \<open>V\<close>.
\<close>

theorem posterior_covariance_depends_on_factorization:
  assumes "shapes_ok a" and "shapes_ok b"
    and "get_posterior_covariance alg a = Inr (Sa, a')"
    and "get_posterior_covariance alg b = Inr (Sb, b')"
    and "m_V a' = m_V b'" and "m_chol_utr a' = m_chol_utr b'"
    and "m_ktrtr_diag a' = m_ktrtr_diag b'" and "m_log_scale a' = m_log_scale b'"
  shows "Sa = Sb"
proof -
  from posterior_covariance_Inr [OF assms(3)] obtain a1 where
    ga: "compute_gradient alg a = Inr a1" and a': "a' = a1\<lparr>m_Sigma := Sa\<rparr>" and
    Sa: "Sa = assign_matrix (length (m_ktrtr_diag a1)) (length (m_ktrtr_diag a1))
                 (mat_add
                    (assign_matrix (length (m_ktrtr_diag a1)) (length (m_ktrtr_diag a1))
                       (mat_mul
                          (mat_mul (adjoint (m_V a1))
                             (upper_solve alg (m_chol_utr a1)
                                (Identity (num_rows (m_kuu a1)) (num_cols (m_kuu a1)))))
                          (adjoint
                             (mat_mul (adjoint (m_V a1))
                                (upper_solve alg (m_chol_utr a1)
                                   (Identity (num_rows (m_kuu a1)) (num_cols (m_kuu a1))))))))
                    (asDiagonal
                       (vec_sub (vec_scale (m_ktrtr_diag a1) (exp (m_log_scale a1 * 2)))
                          (colwise_sum (cwiseProduct (m_V a1) (m_V a1))))))"
    by blast
  from posterior_covariance_Inr [OF assms(4)] obtain b1 where
    gb: "compute_gradient alg b = Inr b1" and b': "b' = b1\<lparr>m_Sigma := Sb\<rparr>" and
    Sb: "Sb = assign_matrix (length (m_ktrtr_diag b1)) (length (m_ktrtr_diag b1))
                 (mat_add
                    (assign_matrix (length (m_ktrtr_diag b1)) (length (m_ktrtr_diag b1))
                       (mat_mul
                          (mat_mul (adjoint (m_V b1))
                             (upper_solve alg (m_chol_utr b1)
                                (Identity (num_rows (m_kuu b1)) (num_cols (m_kuu b1)))))
                          (adjoint
                             (mat_mul (adjoint (m_V b1))
                                (upper_solve alg (m_chol_utr b1)
                                   (Identity (num_rows (m_kuu b1)) (num_cols (m_kuu b1))))))))
                    (asDiagonal
                       (vec_sub (vec_scale (m_ktrtr_diag b1) (exp (m_log_scale b1 * 2)))
                          (colwise_sum (cwiseProduct (m_V b1) (m_V b1))))))"
    by blast
  have eq: "m_V a1 = m_V b1" "m_chol_utr a1 = m_chol_utr b1" "m_ktrtr_diag a1 = m_ktrtr_diag b1"
    "m_log_scale a1 = m_log_scale b1"
    using assms(5-8) by (simp_all add: a' b')
  have kuu: "num_rows (m_kuu a1) = num_rows (m_V a1)" "num_cols (m_kuu a1) = num_rows (m_V a1)"
    "num_rows (m_kuu b1) = num_rows (m_V b1)" "num_cols (m_kuu b1) = num_rows (m_V b1)"
    using compute_gradient_shapes [OF assms(1) ga] compute_gradient_shapes [OF assms(2) gb]
    by simp_all
  show ?thesis
    unfolding Sa Sb kuu eq ..
qed

theorem posterior_covariance_depends_on_factorization_witness:
  "shapes_ok demo1 \<and> shapes_ok demo_other \<and>
   get_posterior_covariance ref_alg demo1 = Inr (mat1 (111 / 100), demo2\<lparr>m_Sigma := mat1 (111 / 100)\<rparr>) \<and>
   get_posterior_covariance ref_alg demo_other =
     Inr (mat1 (111 / 100), demo_other\<lparr>m_Sigma := mat1 (111 / 100)\<rparr>) \<and>
   m_al (demo2\<lparr>m_Sigma := mat1 (111 / 100)\<rparr>) = [32 / 25] \<and>
   m_al (demo_other\<lparr>m_Sigma := mat1 (111 / 100)\<rparr>) = [0] \<and>
   m_Rvdd (demo2\<lparr>m_Sigma := mat1 (111 / 100)\<rparr>) = mat1 (3 / 5) \<and>
   m_Rvdd (demo_other\<lparr>m_Sigma := mat1 (111 / 100)\<rparr>) = mat1 0"
proof -
  have eq: "m_V (demo2\<lparr>m_Sigma := mat1 (111 / 100)\<rparr>) = m_V (demo_other\<lparr>m_Sigma := mat1 (111 / 100)\<rparr>)"
    "m_chol_utr (demo2\<lparr>m_Sigma := mat1 (111 / 100)\<rparr>) = m_chol_utr (demo_other\<lparr>m_Sigma := mat1 (111 / 100)\<rparr>)"
    "m_ktrtr_diag (demo2\<lparr>m_Sigma := mat1 (111 / 100)\<rparr>) = m_ktrtr_diag (demo_other\<lparr>m_Sigma := mat1 (111 / 100)\<rparr>)"
    "m_log_scale (demo2\<lparr>m_Sigma := mat1 (111 / 100)\<rparr>) = m_log_scale (demo_other\<lparr>m_Sigma := mat1 (111 / 100)\<rparr>)"
    by (simp_all add: demo_other_def)
  from posterior_covariance_depends_on_factorization
         [OF shapes_ok_demo(2) shapes_ok_demo_other posterior_covariance_demo1
             posterior_covariance_demo_other eq]
  have "mat1 (111 / 100) = mat1 (111 / 100)" .
  with shapes_ok_demo(2) shapes_ok_demo_other posterior_covariance_demo1 posterior_covariance_demo_other
  show ?thesis
    by (simp add: demo_other_def demo_defs)
qed

end
